theory Spec2Isabelle
  imports Complex_Main "HOL-Library.Word"
begin

section \<open>Numbers and the expression manager\<close>

text \<open>
  JavaScript numbers are modelled as real numbers: the arithmetic of the animation code
  (\<open>+\<close>, \<open>-\<close>, \<open>*\<close>, \<open>/\<close>, \<open>Math.min\<close>, \<open>Math.max\<close>, \<open>Math.sin\<close>) is read exactly, without
  the rounding of IEEE doubles. \<open>Math.random()\<close> is an input of every function that
  calls it; its contract is a value \<open>r\<close> with \<open>0 \<le> r < 1\<close>.
\<close>

text \<open>\<open>Math.max(0, Math.min(1, x))\<close>, the clamp the component writes out at every use.\<close>

definition clamp01 :: "real \<Rightarrow> real" where
  "clamp01 x = max 0 (min 1 x)"

text \<open>
  The name of an expression of the model: the members of three-vrm's
  \<open>VRMExpressionPresetName\<close> that the component names, and any other expression by
  its name.
\<close>

datatype VRMExpressionPresetName =
  Aa | Oh | Blink | Happy | Angry | Sad | Surprised | Relaxed | Neutral
  | OtherExpression string

text \<open>
  The expression channels as the specification lists them: primaryOpen (\<open>aa\<close>),
  roundedOpen (\<open>oh\<close>), blink, happy, angry, sad, surprised, relaxed.
\<close>

definition spec_expression_channels :: "VRMExpressionPresetName list" where
  "spec_expression_channels = [Aa, Oh, Blink, Happy, Angry, Sad, Surprised, Relaxed]"

text \<open>
  The expression manager of the loaded model is a store of weights, one per expression:
  \<open>setValue\<close> writes a weight, kept as the component passes it, \<open>getValue\<close> reads it back
  (\<open>null\<close>, here \<open>None\<close>, for an expression never written), and \<open>getValue(expr) || 0\<close>
  reads \<open>null\<close> as 0.
\<close>

type_synonym expressionManager = "VRMExpressionPresetName \<rightharpoonup> real"

definition setValue ::
  "expressionManager \<Rightarrow> VRMExpressionPresetName \<Rightarrow> real \<Rightarrow> expressionManager" where
  "setValue em e w = em(e \<mapsto> w)"

definition getValue :: "expressionManager \<Rightarrow> VRMExpressionPresetName \<Rightarrow> real option" where
  "getValue em e = em e"

fun or0 :: "real option \<Rightarrow> real" where
  "or0 None = 0"
| "or0 (Some w) = w"

section \<open>Lip sync (Avatar, useFrame)\<close>

text \<open>\<open>lipSyncRef\<close>; the field \<open>value\<close> of the source is \<open>lip_value\<close> here.\<close>

record lipSyncRef =
  lip_value :: real
  smoothedLevel :: real

definition lipSyncRef_init :: lipSyncRef where
  "lipSyncRef_init = \<lparr>lip_value = 0, smoothedLevel = 0\<rparr>"

text \<open>
  The three branches of the lip-sync block. \<open>time\<close> is the elapsed clock time of the
  frame and \<open>r\<close> the value of \<open>Math.random()\<close> drawn in the fallback branch.
\<close>

definition lipSync_update ::
  "bool \<Rightarrow> real \<Rightarrow> real \<Rightarrow> real \<Rightarrow> lipSyncRef \<Rightarrow> lipSyncRef" where
  "lipSync_update isSpeaking audioLevel time r lipSync =
     (if isSpeaking \<and> audioLevel > 0 then
        (let smoothed = smoothedLevel lipSync * 0.4 + audioLevel * 0.6;
             variation = sin (time * 15) * 0.1
         in lipSync\<lparr>smoothedLevel := smoothed,
                    lip_value := max 0 (min 1 (smoothed + variation))\<rparr>)
      else if isSpeaking then
        (let wave1 = sin (time * 12) * 0.3;
             wave2 = sin (time * 18) * 0.2;
             wave3 = sin (time * 25) * 0.15;
             randomVariation = r * 0.1
         in lipSync\<lparr>lip_value :=
              max 0 (min 1 (0.3 + wave1 + wave2 + wave3 + randomVariation))\<rparr>)
      else
        lipSync\<lparr>lip_value := lip_value lipSync * 0.85, smoothedLevel := 0\<rparr>)"

definition mouthOpenValue :: "lipSyncRef \<Rightarrow> real" where
  "mouthOpenValue lipSync = max 0 (min 1 (lip_value lipSync))"

text \<open>The whole block: update the ref, then write the two mouth shapes.\<close>

definition lipSync_tick ::
  "bool \<Rightarrow> real \<Rightarrow> real \<Rightarrow> real \<Rightarrow> lipSyncRef \<times> expressionManager
     \<Rightarrow> lipSyncRef \<times> expressionManager" where
  "lipSync_tick isSpeaking audioLevel time r st =
     (let lipSync = lipSync_update isSpeaking audioLevel time r (fst st);
          em1 = setValue (snd st) Aa (mouthOpenValue lipSync * 0.9);
          em2 = setValue em1 Oh (mouthOpenValue lipSync * 0.4)
      in (lipSync, em2))"

text \<open>The viseme weights a frame leaves in the expression manager.\<close>

definition primaryOpen :: "lipSyncRef \<times> expressionManager \<Rightarrow> real" where
  "primaryOpen st = or0 (getValue (snd st) Aa)"

definition roundedOpen :: "lipSyncRef \<times> expressionManager \<Rightarrow> real" where
  "roundedOpen st = or0 (getValue (snd st) Oh)"

text \<open>\<open>n\<close> consecutive frames with \<open>isSpeaking = false\<close> and \<open>audioLevel = 0\<close>.\<close>

definition rest_frames ::
  "nat \<Rightarrow> lipSyncRef \<times> expressionManager \<Rightarrow> lipSyncRef \<times> expressionManager" where
  "rest_frames n st = ((\<lambda>s. lipSync_tick False 0 0 0 s) ^^ n) st"

section \<open>Blinking (Avatar, useFrame)\<close>

record blinkRef =
  timer :: real
  isBlinking :: bool

definition blinkRef_init :: blinkRef where
  "blinkRef_init = \<lparr>timer = 0, isBlinking = False\<rparr>"

text \<open>
  The blink block. \<open>r1\<close> is the \<open>Math.random()\<close> drawn when a blink starts, \<open>r2\<close> the
  one drawn when it completes.
\<close>

definition blink_tick ::
  "real \<Rightarrow> real \<Rightarrow> real \<Rightarrow> blinkRef \<times> expressionManager \<Rightarrow> blinkRef \<times> expressionManager" where
  "blink_tick delta r1 r2 st =
     (let blink0 = (fst st)\<lparr>timer := timer (fst st) - delta\<rparr>;
          blink1 = (if timer blink0 \<le> 0 \<and> \<not> isBlinking blink0
                    then blink0\<lparr>timer := 2 + r1 * 4, isBlinking := True\<rparr>
                    else blink0)
      in if isBlinking blink1 then
           (let blinkProgress = 1 - timer blink1 / 0.15
            in if blinkProgress \<ge> 1
               then (blink1\<lparr>isBlinking := False, timer := 2 + r2 * 4\<rparr>,
                     setValue (snd st) Blink 0)
               else (blink1, setValue (snd st) Blink (sin (blinkProgress * pi))))
         else (blink1, snd st))"

text \<open>\<open>n\<close> consecutive frames of the same length \<open>delta\<close>, every random draw being \<open>r\<close>.\<close>

definition blink_frames ::
  "real \<Rightarrow> real \<Rightarrow> nat \<Rightarrow> blinkRef \<times> expressionManager \<Rightarrow> blinkRef \<times> expressionManager" where
  "blink_frames delta r n st = ((\<lambda>s. blink_tick delta r r s) ^^ n) st"

section \<open>Emotion expressions (Avatar, useFrame)\<close>

text \<open>\<open>EmotionTag\<close> of the Gemini service: the thirteen emotions the AI may return.\<close>

datatype EmotionTag =
  happy | angry | sad | surprised | embarrassed | loving | worried
  | annoyed | excited | neutral | shy | proud | confused

text \<open>The table from emotion tags to VRM expression presets; \<open>null\<close> is \<open>None\<close>.\<close>

fun emotionToVRMExpression :: "EmotionTag \<Rightarrow> VRMExpressionPresetName option" where
  "emotionToVRMExpression happy = Some Happy"
| "emotionToVRMExpression angry = Some Angry"
| "emotionToVRMExpression sad = Some Sad"
| "emotionToVRMExpression surprised = Some Surprised"
| "emotionToVRMExpression embarrassed = None"
| "emotionToVRMExpression loving = Some Relaxed"
| "emotionToVRMExpression worried = Some Sad"
| "emotionToVRMExpression annoyed = Some Angry"
| "emotionToVRMExpression excited = Some Happy"
| "emotionToVRMExpression neutral = Some Neutral"
| "emotionToVRMExpression shy = None"
| "emotionToVRMExpression proud = Some Happy"
| "emotionToVRMExpression confused = Some Surprised"

record emotionRef =
  current :: EmotionTag
  blendValue :: real

definition emotionRef_init :: emotionRef where
  "emotionRef_init = \<lparr>current = neutral, blendValue = 0\<rparr>"

definition emotionSpeed :: real where
  "emotionSpeed = 3"

definition expressionsToReset :: "VRMExpressionPresetName list" where
  "expressionsToReset = [Happy, Angry, Sad, Surprised, Relaxed]"

text \<open>The body of the reset loop for one expression.\<close>

definition reset_expression ::
  "real \<Rightarrow> VRMExpressionPresetName \<Rightarrow> expressionManager \<Rightarrow> expressionManager" where
  "reset_expression delta expr em =
     (let currentValue = or0 (getValue em expr)
      in if currentValue > 0
         then setValue em expr (max 0 (currentValue - delta * emotionSpeed))
         else em)"

text \<open>
  The emotion block: detect a change of emotion, advance the blend value, fade the five
  standard expressions, then apply the expression of the current emotion.
\<close>

definition emotion_tick ::
  "real \<Rightarrow> EmotionTag \<Rightarrow> emotionRef \<times> expressionManager \<Rightarrow> emotionRef \<times> expressionManager" where
  "emotion_tick delta currentEmotion st =
     (let emotion0 = (if current (fst st) \<noteq> currentEmotion
                      then (fst st)\<lparr>current := currentEmotion, blendValue := 0\<rparr>
                      else fst st);
          emotion1 = emotion0\<lparr>blendValue := min 1 (blendValue emotion0 + delta * emotionSpeed)\<rparr>;
          em1 = fold (reset_expression delta) expressionsToReset (snd st);
          em2 = (case emotionToVRMExpression currentEmotion of
                   Some targetExpression \<Rightarrow>
                     setValue em1 targetExpression (blendValue emotion1 * 0.7)
                 | None \<Rightarrow>
                     if currentEmotion = embarrassed \<or> currentEmotion = shy
                     then setValue em1 Happy (blendValue emotion1 * 0.3)
                     else em1)
      in (emotion1, em2))"

text \<open>\<open>n\<close> consecutive frames of 1/60 s with the emotion \<open>angry\<close>.\<close>

definition angry_frames ::
  "nat \<Rightarrow> emotionRef \<times> expressionManager \<Rightarrow> emotionRef \<times> expressionManager" where
  "angry_frames n st = ((\<lambda>s. emotion_tick (1 / 60) angry s) ^^ n) st"

text \<open>
  A run of frames: each input is the frame's \<open>delta\<close> and the emotion supplied to it.
\<close>

fun emotion_run ::
  "emotionRef \<times> expressionManager \<Rightarrow> (real \<times> EmotionTag) list \<Rightarrow> emotionRef \<times> expressionManager" where
  "emotion_run st [] = st"
| "emotion_run st ((delta, e) # ins) = emotion_run (emotion_tick delta e st) ins"

section \<open>Body poses (Avatar, useFrame)\<close>

text \<open>A bone rotation \<open>{x, y, z}\<close> is a triple; \<open>PoseData\<close> has one per bone.\<close>

type_synonym rotation = "real \<times> real \<times> real"

record PoseData =
  spine :: rotation
  chest :: rotation
  head :: rotation
  leftShoulder :: rotation
  rightShoulder :: rotation
  leftUpperArm :: rotation
  rightUpperArm :: rotation
  leftLowerArm :: rotation
  rightLowerArm :: rotation
  leftHand :: rotation
  rightHand :: rotation
  hips :: rotation
  leftUpperLeg :: rotation
  rightUpperLeg :: rotation

definition poseRelaxed :: PoseData where
  "poseRelaxed =
     \<lparr>spine = (0.03, 0, 0),
       chest = (0.02, 0, 0),
       head = (0.05, 0, 0.02),
       leftShoulder = (0, 0, 0),
       rightShoulder = (0, 0, 0),
       leftUpperArm = (0.3, 0.2, 1.1),
       rightUpperArm = (0.3, - 0.2, - 1.1),
       leftLowerArm = (0, - 0.8, 0),
       rightLowerArm = (0, 0.8, 0),
       leftHand = (0, 0.2, 0),
       rightHand = (0, - 0.2, 0),
       hips = (0, 0, 0),
       leftUpperLeg = (0, 0, 0.02),
       rightUpperLeg = (0, 0, - 0.02)\<rparr>"

definition poseArmsCrossed :: PoseData where
  "poseArmsCrossed =
     \<lparr>spine = (0.02, 0, 0),
       chest = (0, 0, 0),
       head = (0.03, 0.05, 0),
       leftShoulder = (0.1, 0, 0),
       rightShoulder = (0.1, 0, 0),
       leftUpperArm = (0.5, 0.4, 1.2),
       rightUpperArm = (0.5, - 0.4, - 1.2),
       leftLowerArm = (0, - 1.4, 0.2),
       rightLowerArm = (0, 1.4, - 0.2),
       leftHand = (0.2, 0.2, 0),
       rightHand = (0.2, - 0.2, 0),
       hips = (0, 0, 0),
       leftUpperLeg = (0, 0, 0.02),
       rightUpperLeg = (0, 0, - 0.02)\<rparr>"

definition poseWaving :: PoseData where
  "poseWaving =
     \<lparr>spine = (0.02, 0.02, 0),
       chest = (0, 0.03, 0),
       head = (0.05, 0.08, 0.03),
       leftShoulder = (0, 0, 0),
       rightShoulder = (0, 0, 0),
       leftUpperArm = (0.2, 0.1, 1.2),
       rightUpperArm = (- 0.3, - 0.3, - 0.4),
       leftLowerArm = (0, - 0.5, 0),
       rightLowerArm = (0.2, 1.0, 0),
       leftHand = (0, 0.1, 0),
       rightHand = (0.2, - 0.1, 0.1),
       hips = (0, 0, 0),
       leftUpperLeg = (0.02, 0, 0.02),
       rightUpperLeg = (- 0.02, 0, - 0.02)\<rparr>"

definition poseShy :: PoseData where
  "poseShy =
     \<lparr>spine = (0.05, 0, 0),
       chest = (0.03, 0, 0),
       head = (0.12, - 0.05, 0.05),
       leftShoulder = (0.1, 0, 0),
       rightShoulder = (0.1, 0, 0),
       leftUpperArm = (0.6, 0.3, 1.0),
       rightUpperArm = (0.6, - 0.3, - 1.0),
       leftLowerArm = (0.2, - 1.2, 0),
       rightLowerArm = (0.2, 1.2, 0),
       leftHand = (- 0.1, 0.2, 0),
       rightHand = (- 0.1, - 0.2, 0),
       hips = (0, 0, 0),
       leftUpperLeg = (0, 0, 0.04),
       rightUpperLeg = (0, 0, - 0.04)\<rparr>"

definition poseTouchingHead :: PoseData where
  "poseTouchingHead =
     \<lparr>spine = (0.02, 0.02, 0),
       chest = (- 0.02, 0.03, 0),
       head = (0.05, 0.1, 0.03),
       leftShoulder = (0, 0, 0),
       rightShoulder = (0, 0, 0),
       leftUpperArm = (0.2, 0.1, 1.2),
       rightUpperArm = (- 0.8, - 0.4, - 0.2),
       leftLowerArm = (0, - 0.4, 0),
       rightLowerArm = (0.3, 0.9, 0),
       leftHand = (0, 0.1, 0),
       rightHand = (0.2, - 0.1, 0.1),
       hips = (0, 0, 0.02),
       leftUpperLeg = (0, 0, 0.03),
       rightUpperLeg = (0.03, 0, - 0.02)\<rparr>"

definition poses :: "PoseData list" where
  "poses = [poseRelaxed, poseArmsCrossed, poseWaving, poseShy, poseTouchingHead]"

record poseAnimRef =
  currentPoseIndex :: nat
  targetPoseIndex :: nat
  blendFactor :: real
  poseTimer :: real
  lastPoseChange :: real
  currentPose :: PoseData

definition poseAnimRef_init :: poseAnimRef where
  "poseAnimRef_init =
     \<lparr>currentPoseIndex = 0, targetPoseIndex = 0, blendFactor = 1, poseTimer = 0,
      lastPoseChange = 0, currentPose = poseRelaxed\<rparr>"

definition lerpValue :: "real \<Rightarrow> real \<Rightarrow> real \<Rightarrow> real" where
  "lerpValue from to t = from + (to - from) * t"

fun lerpRotation :: "rotation \<Rightarrow> rotation \<Rightarrow> real \<Rightarrow> rotation" where
  "lerpRotation (fx, fy, fz) (tx, ty, tz) t =
     (lerpValue fx tx t, lerpValue fy ty t, lerpValue fz tz t)"

definition easeInOutCubic :: "real \<Rightarrow> real" where
  "easeInOutCubic t = (if t < 0.5 then 4 * t * t * t else 1 - (- 2 * t + 2) ^ 3 / 2)"

text \<open>\<open>Math.floor(Math.random() * n)\<close> for the random draw \<open>r\<close>.\<close>

definition random_index :: "real \<Rightarrow> nat \<Rightarrow> nat" where
  "random_index r n = nat \<lfloor>r * real n\<rfloor>"

definition speakingPoses :: "nat list" where
  "speakingPoses = [1, 2, 4]"

definition idlePoses :: "nat list" where
  "idlePoses = [0, 0, 4, 4, 1]"

text \<open>
  The choice of the new pose, before the no-repeat rule. With \<open>0 \<le> r < 1\<close>, the
  contract of \<open>Math.random()\<close>, both list reads are in range.
\<close>

definition pick_pose :: "bool \<Rightarrow> EmotionTag \<Rightarrow> real \<Rightarrow> nat" where
  "pick_pose isSpeaking currentEmotion r =
     (if isSpeaking then speakingPoses ! random_index r (length speakingPoses)
      else if currentEmotion = shy \<or> currentEmotion = embarrassed then 3
      else if currentEmotion = angry \<or> currentEmotion = annoyed \<or> currentEmotion = proud then 1
      else if currentEmotion = excited \<or> currentEmotion = happy then 2
      else idlePoses ! random_index r (length idlePoses))"

text \<open>Whether this frame takes a pose decision: the timer, advanced, is past the interval.\<close>

definition poseChangeInterval :: "bool \<Rightarrow> real" where
  "poseChangeInterval isSpeaking = (if isSpeaking then 2.5 else 5)"

definition pose_decides :: "real \<Rightarrow> bool \<Rightarrow> poseAnimRef \<Rightarrow> bool" where
  "pose_decides delta isSpeaking poseAnim \<longleftrightarrow>
     poseTimer poseAnim + delta > poseChangeInterval isSpeaking"

text \<open>The decision: the target becomes the current pose and a new target is picked.\<close>

definition pose_decision :: "real \<Rightarrow> bool \<Rightarrow> EmotionTag \<Rightarrow> real \<Rightarrow> poseAnimRef \<Rightarrow> poseAnimRef" where
  "pose_decision delta isSpeaking currentEmotion r poseAnim =
     (let p0 = poseAnim\<lparr>poseTimer := poseTimer poseAnim + delta\<rparr>
      in if poseTimer p0 > poseChangeInterval isSpeaking then
           (let p1 = p0\<lparr>poseTimer := 0, currentPoseIndex := targetPoseIndex p0\<rparr>;
                picked = pick_pose isSpeaking currentEmotion r;
                newPoseIndex = (if picked = currentPoseIndex p1
                                then (picked + 1) mod length poses
                                else picked)
            in p1\<lparr>targetPoseIndex := newPoseIndex, blendFactor := 0\<rparr>)
         else p0)"

definition blendSpeed :: real where
  "blendSpeed = 1.5"

definition lerpPose :: "PoseData \<Rightarrow> PoseData \<Rightarrow> real \<Rightarrow> PoseData" where
  "lerpPose fromPose toPose easedBlend =
     \<lparr>spine = lerpRotation (spine fromPose) (spine toPose) easedBlend,
      chest = lerpRotation (chest fromPose) (chest toPose) easedBlend,
      head = lerpRotation (head fromPose) (head toPose) easedBlend,
      leftShoulder = lerpRotation (leftShoulder fromPose) (leftShoulder toPose) easedBlend,
      rightShoulder = lerpRotation (rightShoulder fromPose) (rightShoulder toPose) easedBlend,
      leftUpperArm = lerpRotation (leftUpperArm fromPose) (leftUpperArm toPose) easedBlend,
      rightUpperArm = lerpRotation (rightUpperArm fromPose) (rightUpperArm toPose) easedBlend,
      leftLowerArm = lerpRotation (leftLowerArm fromPose) (leftLowerArm toPose) easedBlend,
      rightLowerArm = lerpRotation (rightLowerArm fromPose) (rightLowerArm toPose) easedBlend,
      leftHand = lerpRotation (leftHand fromPose) (leftHand toPose) easedBlend,
      rightHand = lerpRotation (rightHand fromPose) (rightHand toPose) easedBlend,
      hips = lerpRotation (hips fromPose) (hips toPose) easedBlend,
      leftUpperLeg = lerpRotation (leftUpperLeg fromPose) (leftUpperLeg toPose) easedBlend,
      rightUpperLeg = lerpRotation (rightUpperLeg fromPose) (rightUpperLeg toPose) easedBlend\<rparr>"

text \<open>
  The blend towards the target pose. Pose indices are written only by the decision
  above, which keeps them below \<open>length poses\<close>, so both reads of \<open>poses\<close> are in range.
\<close>

definition pose_blend :: "real \<Rightarrow> poseAnimRef \<Rightarrow> poseAnimRef" where
  "pose_blend delta poseAnim =
     (if blendFactor poseAnim < 1 then
        (let p = poseAnim\<lparr>blendFactor := min 1 (blendFactor poseAnim + delta / blendSpeed)\<rparr>;
             easedBlend = easeInOutCubic (blendFactor p);
             fromPose = poses ! currentPoseIndex p;
             toPose = poses ! targetPoseIndex p
         in p\<lparr>currentPose := lerpPose fromPose toPose easedBlend\<rparr>)
      else poseAnim)"

definition pose_tick :: "real \<Rightarrow> bool \<Rightarrow> EmotionTag \<Rightarrow> real \<Rightarrow> poseAnimRef \<Rightarrow> poseAnimRef" where
  "pose_tick delta isSpeaking currentEmotion r poseAnim =
     pose_blend delta (pose_decision delta isSpeaking currentEmotion r poseAnim)"

text \<open>
  A run of frames of the pose block; an input is \<open>(delta, isSpeaking, emotion, r)\<close>.
  \<open>pose_targets\<close> lists the targets chosen by the decisions of the run, in order.
\<close>

type_synonym pose_input = "real \<times> bool \<times> EmotionTag \<times> real"

fun pose_run :: "poseAnimRef \<Rightarrow> pose_input list \<Rightarrow> poseAnimRef" where
  "pose_run p [] = p"
| "pose_run p ((delta, sp, e, r) # ins) = pose_run (pose_tick delta sp e r p) ins"

fun pose_targets :: "poseAnimRef \<Rightarrow> pose_input list \<Rightarrow> nat list" where
  "pose_targets p [] = []"
| "pose_targets p ((delta, sp, e, r) # ins) =
     (if pose_decides delta sp p
      then targetPoseIndex (pose_tick delta sp e r p) # pose_targets (pose_tick delta sp e r p) ins
      else pose_targets (pose_tick delta sp e r p) ins)"

section \<open>The frame as a whole (Avatar, useFrame)\<close>

text \<open>
  The refs of the component and the expression manager of the loaded model. The frame
  callback returns at once while no model with an expression manager is loaded;
  \<open>vrm_ready\<close> says that one is.
\<close>

record avatar =
  vrm_ready :: bool
  lipSync_ref :: lipSyncRef
  blink_ref :: blinkRef
  emotion_ref :: emotionRef
  breath_phase :: real
  poseAnim_ref :: poseAnimRef
  expressions :: expressionManager

definition avatar_init :: avatar where
  "avatar_init =
     \<lparr>vrm_ready = True, lipSync_ref = lipSyncRef_init, blink_ref = blinkRef_init,
      emotion_ref = emotionRef_init, breath_phase = 0, poseAnim_ref = poseAnimRef_init,
      expressions = Map.empty\<rparr>"

text \<open>
  What one frame receives: the clock (\<open>delta\<close>, elapsed \<open>time\<close>), the props of the
  component, and the values of the calls of \<open>Math.random()\<close> it may make, in source order.
\<close>

record frame_input =
  f_delta :: real
  f_time :: real
  f_isSpeaking :: bool
  f_audioLevel :: real
  f_currentEmotion :: EmotionTag
  rnd_lip :: real
  rnd_blink_start :: real
  rnd_blink_end :: real
  rnd_pose :: real

definition useFrame :: "frame_input \<Rightarrow> avatar \<Rightarrow> avatar" where
  "useFrame i a =
     (if \<not> vrm_ready a then a
      else
        (let (lipSync, em1) =
               lipSync_tick (f_isSpeaking i) (f_audioLevel i) (f_time i) (rnd_lip i)
                 (lipSync_ref a, expressions a);
             (blink, em2) =
               blink_tick (f_delta i) (rnd_blink_start i) (rnd_blink_end i) (blink_ref a, em1);
             (emotion, em3) =
               emotion_tick (f_delta i) (f_currentEmotion i) (emotion_ref a, em2);
             phase = breath_phase a + f_delta i * 0.8;
             poseAnim =
               pose_tick (f_delta i) (f_isSpeaking i) (f_currentEmotion i) (rnd_pose i)
                 (poseAnim_ref a)
         in a\<lparr>lipSync_ref := lipSync, blink_ref := blink, emotion_ref := emotion,
               breath_phase := phase, poseAnim_ref := poseAnim, expressions := em3\<rparr>))"

text \<open>
  A frame of 1/60 s at rest: nobody speaks, the emotion is \<open>neutral\<close>, every random draw
  is 0.
\<close>

definition neutral_frame :: frame_input where
  "neutral_frame =
     \<lparr>f_delta = 1 / 60, f_time = 0, f_isSpeaking = False, f_audioLevel = 0,
      f_currentEmotion = neutral, rnd_lip = 0, rnd_blink_start = 0, rnd_blink_end = 0,
      rnd_pose = 0\<rparr>"

text \<open>
  The rotations the frame applies to the bones: the current pose with the breathing
  overlay on spine and chest and the speaking overlay on the head.
\<close>

fun applyBone :: "rotation \<Rightarrow> rotation \<Rightarrow> rotation" where
  "applyBone (rx, ry, rz) (ox, oy, oz) = (rx + ox, ry + oy, rz + oz)"

definition bone_rotations :: "frame_input \<Rightarrow> avatar \<Rightarrow> (string \<times> rotation) list" where
  "bone_rotations i a =
     (let pose = currentPose (poseAnim_ref a);
          breathAmount = sin (breath_phase a) * 0.01;
          breathExpand = (sin (breath_phase a) + 1) * 0.5 * 0.008;
          speakHead = (if f_isSpeaking i
                       then (sin (f_time i * 2.5) * 0.03, sin (f_time i * 1.8) * 0.05,
                             sin (f_time i * 2.2) * 0.025)
                       else (0, 0, 0))
      in [(''spine'', applyBone (spine pose) (breathAmount, 0, 0)),
          (''chest'', applyBone (chest pose) (breathExpand * 1.5, 0, 0)),
          (''hips'', applyBone (hips pose) (0, 0, 0)),
          (''head'', applyBone (head pose) speakHead),
          (''leftShoulder'', applyBone (leftShoulder pose) (0, 0, 0)),
          (''rightShoulder'', applyBone (rightShoulder pose) (0, 0, 0)),
          (''leftUpperArm'', applyBone (leftUpperArm pose) (0, 0, 0)),
          (''rightUpperArm'', applyBone (rightUpperArm pose) (0, 0, 0)),
          (''leftLowerArm'', applyBone (leftLowerArm pose) (0, 0, 0)),
          (''rightLowerArm'', applyBone (rightLowerArm pose) (0, 0, 0)),
          (''leftHand'', applyBone (leftHand pose) (0, 0, 0)),
          (''rightHand'', applyBone (rightHand pose) (0, 0, 0)),
          (''leftUpperLeg'', applyBone (leftUpperLeg pose) (0, 0, 0)),
          (''rightUpperLeg'', applyBone (rightUpperLeg pose) (0, 0, 0))])"

section \<open>Audio level (ElevenLabsTTSService)\<close>

text \<open>
  The fields of the service that the analysis reads and writes. \<open>analyser\<close> and
  \<open>dataArray\<close> are set together by \<open>setupAudioContext\<close>; \<open>has_analyser\<close> says that they
  are not \<open>null\<close>. \<open>animationFrameId\<close> is \<open>True\<close> while a frame is requested.
\<close>

record tts_service =
  has_analyser :: bool
  isPlaying :: bool
  animationFrameId :: bool
  currentAudioLevel :: real

definition tts_service_init :: tts_service where
  "tts_service_init =
     \<lparr>has_analyser = False, isPlaying = False, animationFrameId = False,
      currentAudioLevel = 0\<rparr>"

definition fftSize :: nat where
  "fftSize = 256"

text \<open>\<open>analyser.frequencyBinCount\<close>, the length of \<open>dataArray\<close>: half the FFT size.\<close>

definition frequencyBinCount :: nat where
  "frequencyBinCount = fftSize div 2"

definition setupAudioContext :: "tts_service \<Rightarrow> tts_service" where
  "setupAudioContext s = s\<lparr>has_analyser := True\<rparr>"

text \<open>
  An audio frame is the content of \<open>dataArray\<close> (a \<open>Uint8Array\<close>) after
  \<open>getByteFrequencyData\<close> has filled it.
\<close>

type_synonym audio_frame = "8 word list"

definition voiceRangeStart :: nat where
  "voiceRangeStart = 2"

definition voiceRangeEnd :: "audio_frame \<Rightarrow> nat" where
  "voiceRangeEnd dataArray = min 20 (length dataArray)"

text \<open>The loop \<open>for (i = voiceRangeStart; i < voiceRangeEnd; i++) sum += dataArray[i]\<close>.\<close>

definition voice_sum :: "audio_frame \<Rightarrow> real" where
  "voice_sum dataArray =
     fold (\<lambda>i sum. sum + real (unat (dataArray ! i)))
       [voiceRangeStart ..< voiceRangeEnd dataArray] 0"

text \<open>
  \<open>sum / (voiceRangeEnd - voiceRangeStart)\<close>. For a frame of exactly two bins this is
  \<open>0 / 0\<close>, which is \<open>NaN\<close> in JavaScript and stays \<open>NaN\<close> through the rest of the
  analysis; the model reports it as an error rather than as a number.
\<close>

datatype analysis_error = NotANumber

definition average :: "audio_frame \<Rightarrow> analysis_error + real" where
  "average dataArray =
     (if voiceRangeEnd dataArray = voiceRangeStart then Inl NotANumber
      else Inr (voice_sum dataArray /
                  real_of_int (int (voiceRangeEnd dataArray) - int voiceRangeStart)))"

definition normalized :: "real \<Rightarrow> real" where
  "normalized avg = min 1 (max 0 ((avg - 30) / 150))"

text \<open>
  One run of the closure \<open>analyze\<close>: without analyser or playback the level is set to
  0 and no further frame is requested; otherwise the level is smoothed towards the
  normalized average and the next frame is requested.
\<close>

definition analyze :: "audio_frame \<Rightarrow> tts_service \<Rightarrow> analysis_error + tts_service" where
  "analyze dataArray s =
     (if \<not> has_analyser s \<or> \<not> isPlaying s then Inr (s\<lparr>currentAudioLevel := 0\<rparr>)
      else case average dataArray of
             Inl e \<Rightarrow> Inl e
           | Inr avg \<Rightarrow>
               Inr (s\<lparr>currentAudioLevel := currentAudioLevel s * 0.3 + normalized avg * 0.7,
                      animationFrameId := True\<rparr>))"

definition stopAudioAnalysis :: "tts_service \<Rightarrow> tts_service" where
  "stopAudioAnalysis s = s\<lparr>animationFrameId := False, currentAudioLevel := 0\<rparr>"

text \<open>
  What happens to the service between two renders: the audio context is set up, the
  audio starts playing (\<open>onplay\<close> sets \<open>isPlaying\<close> and starts the analysis, which runs
  \<open>analyze\<close> once at once), an animation frame requested by \<open>analyze\<close> runs it again,
  the audio ends or fails (\<open>onended\<close>, \<open>onerror\<close>), or \<open>stop\<close> is called.
\<close>

datatype tts_event =
  SetupAudioContext
  | OnPlay audio_frame
  | AnimationFrame audio_frame
  | OnEnded
  | Stop

fun tts_step :: "tts_event \<Rightarrow> tts_service \<Rightarrow> analysis_error + tts_service" where
  "tts_step SetupAudioContext s = Inr (setupAudioContext s)"
| "tts_step (OnPlay d) s = analyze d (s\<lparr>isPlaying := True\<rparr>)"
| "tts_step (AnimationFrame d) s = (if animationFrameId s then analyze d s else Inr s)"
| "tts_step OnEnded s = Inr (stopAudioAnalysis (s\<lparr>isPlaying := False\<rparr>))"
| "tts_step Stop s = Inr (stopAudioAnalysis (s\<lparr>isPlaying := False\<rparr>))"

fun tts_run :: "tts_service \<Rightarrow> tts_event list \<Rightarrow> analysis_error + tts_service" where
  "tts_run s [] = Inr s"
| "tts_run s (ev # evs) =
     (case tts_step ev s of Inl e \<Rightarrow> Inl e | Inr s' \<Rightarrow> tts_run s' evs)"

text \<open>The audio frames an event carries.\<close>

fun event_frames :: "tts_event \<Rightarrow> audio_frame list" where
  "event_frames (OnPlay d) = [d]"
| "event_frames (AnimationFrame d) = [d]"
| "event_frames _ = []"

text \<open>
  The raw level as the specification words it: the arithmetic mean of the bins at
  indices 2 through 20 inclusive (19 bins), mapped by \<open>clamp((m - 30) / 150, 0, 1)\<close>.
\<close>

definition spec_mean_2_to_20 :: "audio_frame \<Rightarrow> real" where
  "spec_mean_2_to_20 dataArray = (\<Sum>i \<leftarrow> [2 ..< 21]. real (unat (dataArray ! i))) / 19"

definition spec_raw_level :: "audio_frame \<Rightarrow> real" where
  "spec_raw_level dataArray = clamp01 ((spec_mean_2_to_20 dataArray - 30) / 150)"

text \<open>
  A frame of 128 bins with the magnitude 180 in the bins 2 to 19 and silence elsewhere,
  and a service that has an analyser and is playing.
\<close>

definition loud_frame :: audio_frame where
  "loud_frame = replicate 2 0 @ replicate 18 180 @ replicate 108 0"

definition playing_service :: tts_service where
  "playing_service = tts_service_init\<lparr>has_analyser := True, isPlaying := True\<rparr>"

section \<open>Emotion tag of a reply (GeminiService)\<close>

text \<open>
  A reply is a string of 8-bit characters. \<open>\w\<close> is \<open>[A-Za-z0-9_]\<close>; \<open>\s\<close> and \<open>trim\<close> use the
  white space among these characters (tab, line feed, vertical tab, form feed, carriage
  return, space, no-break space).
\<close>

definition is_word_char :: "char \<Rightarrow> bool" where
  "is_word_char c =
     (let n = (of_char c :: nat)
      in (65 \<le> n \<and> n \<le> 90) \<or> (97 \<le> n \<and> n \<le> 122) \<or> (48 \<le> n \<and> n \<le> 57) \<or> n = 95)"

definition is_space :: "char \<Rightarrow> bool" where
  "is_space c = ((of_char c :: nat) \<in> {9, 10, 11, 12, 13, 32, 160})"

definition toLowerCase_char :: "char \<Rightarrow> char" where
  "toLowerCase_char c =
     (let n = (of_char c :: nat) in if 65 \<le> n \<and> n \<le> 90 then char_of (n + 32) else c)"

definition toLowerCase :: "string \<Rightarrow> string" where
  "toLowerCase s = map toLowerCase_char s"

definition trim :: "string \<Rightarrow> string" where
  "trim s = rev (dropWhile is_space (rev (dropWhile is_space s)))"

text \<open>
  \<open>response.match(/^\[(\w+)\]/)\<close>: the captured group and the rest of the reply after
  the closing bracket, or \<open>None\<close> when the reply does not start with a tag. The greedy
  \<open>\w+\<close> takes the longest run of word characters; no shorter run can be followed by
  \<open>]\<close>, so nothing is lost by not backtracking.
\<close>

definition emotionMatch :: "string \<Rightarrow> (string \<times> string) option" where
  "emotionMatch response =
     (case response of
        [] \<Rightarrow> None
      | c # rest \<Rightarrow>
          if c \<noteq> CHR ''[''  then None
          else (let w = takeWhile is_word_char rest
                in case dropWhile is_word_char rest of
                     [] \<Rightarrow> None
                   | d # after \<Rightarrow> if w \<noteq> [] \<and> d = CHR '']'' then Some (w, after) else None))"

text \<open>
  \<open>WaifuResponse\<close>. The field \<open>emotion\<close> is declared an \<open>EmotionTag\<close>, but the parser
  fills it by a cast from the matched string, so at run time it is a string; the field
  \<open>text\<close> of the source is \<open>reply_text\<close> here.
\<close>

record WaifuResponse =
  emotion :: string
  reply_text :: string
  rawResponse :: string

definition parseEmotionFromResponse :: "string \<Rightarrow> WaifuResponse" where
  "parseEmotionFromResponse response =
     (case emotionMatch response of
        Some (w, after) \<Rightarrow>
          \<lparr>emotion = toLowerCase w,
           reply_text = trim (dropWhile is_space after),
           rawResponse = response\<rparr>
      | None \<Rightarrow>
          \<lparr>emotion = ''neutral'', reply_text = trim response, rawResponse = response\<rparr>)"

text \<open>The thirteen values of \<open>EmotionTag\<close>, as strings.\<close>

definition emotion_tags :: "string list" where
  "emotion_tags =
     [''happy'', ''angry'', ''sad'', ''surprised'', ''embarrassed'', ''loving'', ''worried'',
      ''annoyed'', ''excited'', ''neutral'', ''shy'', ''proud'', ''confused'']"

section \<open>Lip sync: properties\<close>

lemma primaryOpen_tick:
  "primaryOpen (lipSync_tick sp a t r st) =
     mouthOpenValue (lipSync_update sp a t r (fst st)) * 0.9"
  by (simp add: primaryOpen_def lipSync_tick_def Let_def setValue_def getValue_def)

lemma roundedOpen_tick:
  "roundedOpen (lipSync_tick sp a t r st) =
     mouthOpenValue (lipSync_update sp a t r (fst st)) * 0.4"
  by (simp add: roundedOpen_def lipSync_tick_def Let_def setValue_def getValue_def)

lemma fst_lipSync_tick:
  "fst (lipSync_tick sp a t r st) = lipSync_update sp a t r (fst st)"
  by (simp add: lipSync_tick_def Let_def)

lemma lip_value_rest_frames:
  "lip_value (fst (rest_frames n st)) = lip_value (fst st) * 0.85 ^ n"
proof (induction n)
  case 0
  show ?case by (simp add: rest_frames_def)
next
  case (Suc n)
  have "lip_value (fst (rest_frames (Suc n) st)) =
          lip_value (fst (rest_frames n st)) * 0.85"
    by (simp add: rest_frames_def fst_lipSync_tick lipSync_update_def)
  with Suc show ?case by simp
qed

lemma primaryOpen_rest_frames:
  assumes "0 \<le> lip_value (fst st)" and "lip_value (fst st) \<le> 1"
  shows "primaryOpen (rest_frames (Suc n) st) = lip_value (fst st) * 0.85 ^ Suc n * 0.9"
proof -
  let ?v = "lip_value (fst st) * 0.85 ^ Suc n"
  have step: "rest_frames (Suc n) st = lipSync_tick False 0 0 0 (rest_frames n st)"
    by (simp add: rest_frames_def)
  have val: "lip_value (lipSync_update False 0 0 0 (fst (rest_frames n st))) = ?v"
    using lip_value_rest_frames [of "Suc n" st] by (simp add: step fst_lipSync_tick)
  have "(0.85::real) ^ Suc n \<le> 1"
    by (rule power_le_one) simp_all
  then have "?v \<le> 1 * 1"
    using assms by (intro mult_mono) simp_all
  moreover have "0 \<le> ?v"
    using assms by simp
  ultimately have "mouthOpenValue (lipSync_update False 0 0 0 (fst (rest_frames n st))) = ?v"
    unfolding mouthOpenValue_def val by simp
  then show ?thesis
    by (simp only: step primaryOpen_tick)
qed


lemma rest_bound_28: "(0.85::real) ^ 28 * 0.9 < 0.01"
  by (simp add: power_divide)

text \<open>
  C2 (as stated, refuted). From a fully open mouth, five frames at rest leave
  \<open>primaryOpen\<close> at \<open>0.9 * 0.85 ^ 5\<close>, about 0.399, which is not below 0.01.
\<close>

theorem C2_five_ticks_counterexample:
  "\<not> primaryOpen (rest_frames 5 (\<lparr>lip_value = 1, smoothedLevel = 0\<rparr>, Map.empty)) < 0.01"
proof -
  have "primaryOpen (rest_frames (Suc 4) (\<lparr>lip_value = 1, smoothedLevel = 0\<rparr>, Map.empty)) =
          1 * 0.85 ^ Suc 4 * 0.9"
    using primaryOpen_rest_frames [of "(\<lparr>lip_value = 1, smoothedLevel = 0\<rparr>, Map.empty)" 4]
    by simp
  then show ?thesis
    by (simp add: power_divide)
qed

text \<open>
  C2 (amended). For every starting mouth-open value in [0,1], each frame with
  \<open>isSpeaking = false\<close> and \<open>audioLevel = 0\<close> multiplies the previous open value by 0.85
  and emits \<open>primaryOpen = open * 0.9\<close>; after at least 28 such consecutive frames
  \<open>primaryOpen\<close> is below 0.01.
\<close>

theorem C2_rest_closes_mouth:
  assumes "0 \<le> lip_value (fst st)" and "lip_value (fst st) \<le> 1" and "28 \<le> n"
  shows "lip_value (fst (rest_frames n st)) = lip_value (fst st) * 0.85 ^ n
       \<and> primaryOpen (rest_frames n st) = lip_value (fst (rest_frames n st)) * 0.9
       \<and> primaryOpen (rest_frames n st) < 0.01"
proof -
  from \<open>28 \<le> n\<close> obtain m where n: "n = Suc m"
    by (cases n) simp_all
  let ?v = "lip_value (fst st)"
  have open_eq: "primaryOpen (rest_frames n st) = ?v * 0.85 ^ n * 0.9"
    using primaryOpen_rest_frames [OF assms(1,2), of m] by (simp only: n)
  have "(0.85::real) ^ n \<le> 0.85 ^ 28"
    using \<open>28 \<le> n\<close> by (intro power_decreasing) simp_all
  moreover have "(0::real) \<le> 0.85 ^ n"
    by simp
  ultimately have "?v * 0.85 ^ n \<le> 1 * 0.85 ^ 28"
    using assms(1,2) by (intro mult_mono) simp_all
  then have "?v * 0.85 ^ n * 0.9 \<le> 0.85 ^ 28 * 0.9"
    by simp
  also have "\<dots> < 0.01"
    by (rule rest_bound_28)
  finally have "primaryOpen (rest_frames n st) < 0.01"
    by (simp only: open_eq)
  then show ?thesis
    using open_eq by (simp only: lip_value_rest_frames)
qed

theorem C2_rest_closes_mouth_witness:
  "primaryOpen (rest_frames 28 (\<lparr>lip_value = 1, smoothedLevel = 0\<rparr>, Map.empty)) < 0.01"
  using C2_rest_closes_mouth [of "(\<lparr>lip_value = 1, smoothedLevel = 0\<rparr>, Map.empty)" 28]
  by simp

text \<open>With a fully open mouth 27 frames are not enough, so 28 is the least such count.\<close>

lemma rest_27_not_enough:
  "\<not> primaryOpen (rest_frames 27 (\<lparr>lip_value = 1, smoothedLevel = 0\<rparr>, Map.empty)) < 0.01"
proof -
  have "primaryOpen (rest_frames (Suc 26) (\<lparr>lip_value = 1, smoothedLevel = 0\<rparr>, Map.empty)) =
          1 * 0.85 ^ Suc 26 * 0.9"
    using primaryOpen_rest_frames [of "(\<lparr>lip_value = 1, smoothedLevel = 0\<rparr>, Map.empty)" 26]
    by simp
  then show ?thesis
    by (simp add: power_divide)
qed

text \<open>
  C10. While \<open>isSpeaking\<close> is true, the block takes the real-audio path (the smoothed
  level \<open>smoothedLevel * 0.4 + audioLevel * 0.6\<close> plus the variation \<open>sin(time * 15) * 0.1\<close>,
  clamped) exactly when \<open>audioLevel > 0\<close>; when \<open>audioLevel\<close> is not above 0 it produces
  the simulated waveform (sines at 12, 18 and 25 rad/s and \<open>Math.random() * 0.1\<close> on a 0.3
  baseline, clamped) and leaves the smoothed level alone.
\<close>

theorem C10_speaking_paths:
  "(audioLevel > 0 \<longrightarrow>
      smoothedLevel (fst (lipSync_tick True audioLevel time r st)) =
        smoothedLevel (fst st) * 0.4 + audioLevel * 0.6
    \<and> lip_value (fst (lipSync_tick True audioLevel time r st)) =
        clamp01 (smoothedLevel (fst st) * 0.4 + audioLevel * 0.6 + sin (time * 15) * 0.1))
 \<and> (\<not> audioLevel > 0 \<longrightarrow>
      smoothedLevel (fst (lipSync_tick True audioLevel time r st)) = smoothedLevel (fst st)
    \<and> lip_value (fst (lipSync_tick True audioLevel time r st)) =
        clamp01 (0.3 + sin (time * 12) * 0.3 + sin (time * 18) * 0.2
                   + sin (time * 25) * 0.15 + r * 0.1))
 \<and> primaryOpen (lipSync_tick True audioLevel time r st) =
      clamp01 (lip_value (fst (lipSync_tick True audioLevel time r st))) * 0.9"
  by (simp add: fst_lipSync_tick primaryOpen_tick lipSync_update_def mouthOpenValue_def
        clamp01_def Let_def)

theorem C10_speaking_paths_witness:
  "lip_value (fst (lipSync_tick True (1/2) 0 0 (lipSyncRef_init, Map.empty))) = 0.3
 \<and> smoothedLevel (fst (lipSync_tick True (1/2) 0 0 (lipSyncRef_init, Map.empty))) = 0.3
 \<and> lip_value (fst (lipSync_tick True 0 0 (1/2) (lipSyncRef_init, Map.empty))) = 0.35
 \<and> smoothedLevel (fst (lipSync_tick True 0 0 (1/2) (lipSyncRef_init, Map.empty))) = 0"
  using C10_speaking_paths [of "1/2" 0 0 "(lipSyncRef_init, Map.empty)"]
        C10_speaking_paths [of 0 0 "1/2" "(lipSyncRef_init, Map.empty)"]
  by (simp add: lipSyncRef_init_def clamp01_def)

section \<open>Emotion expressions: properties\<close>

lemma reset_expression_apply:
  "reset_expression delta x em e =
     (if e = x \<and> or0 (em x) > 0 then Some (max 0 (or0 (em x) - delta * emotionSpeed)) else em e)"
  by (simp add: reset_expression_def setValue_def getValue_def Let_def)

lemma reset_all:
  "fold (reset_expression delta) expressionsToReset em e =
     (if e \<in> set expressionsToReset \<and> or0 (em e) > 0
      then Some (max 0 (or0 (em e) - delta * emotionSpeed)) else em e)"
  by (auto simp: expressionsToReset_def reset_expression_apply)

lemma fst_emotion_tick:
  "fst (emotion_tick delta l st) =
     \<lparr>current = l,
      blendValue = min 1 ((if current (fst st) = l then blendValue (fst st) else 0)
                          + delta * emotionSpeed)\<rparr>"
  by (cases "fst st") (simp add: emotion_tick_def Let_def)

lemma snd_emotion_tick:
  "snd (emotion_tick delta l st) =
     (case emotionToVRMExpression l of
        Some targetExpression \<Rightarrow>
          (fold (reset_expression delta) expressionsToReset (snd st))
            (targetExpression \<mapsto> blendValue (fst (emotion_tick delta l st)) * 0.7)
      | None \<Rightarrow>
          if l = embarrassed \<or> l = shy
          then (fold (reset_expression delta) expressionsToReset (snd st))
                 (Happy \<mapsto> blendValue (fst (emotion_tick delta l st)) * 0.3)
          else fold (reset_expression delta) expressionsToReset (snd st))"
  by (simp add: emotion_tick_def Let_def setValue_def split: option.split)

lemma blendValue_run_le_1:
  "blendValue (fst st) \<le> 1 \<Longrightarrow> blendValue (fst (emotion_run st ins)) \<le> 1"
proof (induction ins arbitrary: st)
  case Nil
  then show ?case by simp
next
  case (Cons i ins)
  obtain d l where i: "i = (d, l)" by (cases i)
  have "blendValue (fst (emotion_tick d l st)) \<le> 1"
    by (simp add: fst_emotion_tick)
  then show ?case
    using Cons.IH by (simp add: i)
qed

text \<open>
  C7. After any run of frames from the initial state, a frame of length \<open>delta \<ge> 0\<close>
  supplied with the stored emotion advances \<open>blendValue\<close> by \<open>delta * 3\<close>, clamped to 1,
  and so never decreases it; a frame supplied with a different emotion, and only such
  a frame, restarts the blend from 0 before advancing it, and stores the new emotion.
\<close>

theorem C7_blend_progress:
  assumes "0 \<le> delta"
  shows "current (fst (emotion_tick delta l (emotion_run (emotionRef_init, em) ins))) = l
   \<and> (current (fst (emotion_run (emotionRef_init, em) ins)) = l \<longrightarrow>
        blendValue (fst (emotion_tick delta l (emotion_run (emotionRef_init, em) ins))) =
          min 1 (blendValue (fst (emotion_run (emotionRef_init, em) ins)) + delta * 3)
      \<and> blendValue (fst (emotion_run (emotionRef_init, em) ins))
          \<le> blendValue (fst (emotion_tick delta l (emotion_run (emotionRef_init, em) ins))))
   \<and> (current (fst (emotion_run (emotionRef_init, em) ins)) \<noteq> l \<longrightarrow>
        blendValue (fst (emotion_tick delta l (emotion_run (emotionRef_init, em) ins))) =
          min 1 (0 + delta * 3))"
proof -
  define st where "st = emotion_run (emotionRef_init, em) ins"
  have le: "blendValue (fst st) \<le> 1"
    unfolding st_def by (rule blendValue_run_le_1) (simp add: emotionRef_init_def)
  have "current (fst (emotion_tick delta l st)) = l
   \<and> (current (fst st) = l \<longrightarrow>
        blendValue (fst (emotion_tick delta l st)) = min 1 (blendValue (fst st) + delta * 3)
      \<and> blendValue (fst st) \<le> blendValue (fst (emotion_tick delta l st)))
   \<and> (current (fst st) \<noteq> l \<longrightarrow>
        blendValue (fst (emotion_tick delta l st)) = min 1 (0 + delta * 3))"
    using le assms by (simp add: fst_emotion_tick emotionSpeed_def)
  then show ?thesis
    unfolding st_def .
qed

theorem C7_blend_progress_witness:
  "blendValue (fst (emotion_run (emotionRef_init, Map.empty) [(1 / 60, happy), (1 / 60, happy)]))
     = 1 / 10
 \<and> blendValue (fst (emotion_tick (1 / 60) happy
       (emotion_run (emotionRef_init, Map.empty) [(1 / 60, happy), (1 / 60, happy)]))) = 3 / 20
 \<and> blendValue (fst (emotion_tick (1 / 60) sad
       (emotion_run (emotionRef_init, Map.empty) [(1 / 60, happy), (1 / 60, happy)]))) = 1 / 20"
  using C7_blend_progress [of "1 / 60" happy Map.empty "[(1 / 60, happy), (1 / 60, happy)]"]
        C7_blend_progress [of "1 / 60" sad Map.empty "[(1 / 60, happy), (1 / 60, happy)]"]
  by (simp add: fst_emotion_tick emotionRef_init_def emotionSpeed_def)

lemma angry_frames_Suc:
  "angry_frames (Suc n) st = emotion_tick (1 / 60) angry (angry_frames n st)"
  by (simp add: angry_frames_def)

lemma fst_angry_frames:
  assumes "current (fst st) \<noteq> angry"
  shows "fst (angry_frames (Suc n) st) =
           \<lparr>current = angry, blendValue = min 1 (real (Suc n) / 20)\<rparr>"
proof (induction n)
  case 0
  show ?case
    using assms by (simp add: angry_frames_def fst_emotion_tick emotionSpeed_def)
next
  case (Suc n)
  have "fst (angry_frames (Suc (Suc n)) st) =
          \<lparr>current = angry, blendValue = min 1 (min 1 (real (Suc n) / 20) + 1 / 20)\<rparr>"
    by (simp add: angry_frames_Suc [of "Suc n"] fst_emotion_tick Suc.IH emotionSpeed_def)
  moreover have "min 1 (min 1 (real (Suc n) / 20) + 1 / 20) = min 1 (real (Suc (Suc n)) / 20)"
    by (simp add: min_def field_simps)
  ultimately show ?case by simp
qed

lemma angry_weight_frames:
  assumes "current (fst st) \<noteq> angry"
  shows "getValue (snd (angry_frames (Suc n) st)) Angry = Some (min 1 (real (Suc n) / 20) * 0.7)"
proof -
  have "getValue (snd (angry_frames (Suc n) st)) Angry =
          Some (blendValue (fst (angry_frames (Suc n) st)) * 0.7)"
    by (simp add: getValue_def angry_frames_Suc snd_emotion_tick)
  then show ?thesis
    by (simp only: fst_angry_frames [OF assms]) simp
qed

text \<open>
  C8. When the stored emotion is \<open>neutral\<close> and the frames from t = 0 on are supplied
  with \<open>angry\<close> at \<open>delta = 1/60\<close>, the weight of the \<open>angry\<close> expression is \<open>n / 20 * 0.7\<close>,
  below 0.7, after \<open>n < 20\<close> frames, and exactly 0.7 after 20 frames (t = 1/3 s) and after
  every later frame.
\<close>

theorem C8_angry_reaches_peak:
  assumes "current (fst st) = neutral"
  shows "(20 \<le> n \<longrightarrow> getValue (snd (angry_frames n st)) Angry = Some 0.7)
       \<and> (0 < n \<and> n < 20 \<longrightarrow>
            getValue (snd (angry_frames n st)) Angry = Some (real n / 20 * 0.7)
          \<and> real n / 20 * 0.7 < (0.7::real))"
proof (cases n)
  case 0
  then show ?thesis by simp
next
  case (Suc m)
  have ne: "current (fst st) \<noteq> angry"
    using assms by simp
  have w: "getValue (snd (angry_frames n st)) Angry = Some (min 1 (real n / 20) * 0.7)"
    unfolding Suc by (rule angry_weight_frames [OF ne])
  have "20 \<le> n \<Longrightarrow> min 1 (real n / 20) = 1"
    by (simp add: min_def)
  moreover have "n < 20 \<Longrightarrow> min 1 (real n / 20) = real n / 20"
    by (simp add: min_def)
  ultimately show ?thesis
    using w by auto
qed

theorem C8_angry_reaches_peak_witness:
  "getValue (snd (angry_frames 20 (emotionRef_init, Map.empty))) Angry = Some 0.7
 \<and> getValue (snd (angry_frames 19 (emotionRef_init, Map.empty))) Angry = Some (19 / 20 * 0.7)
 \<and> getValue (snd (angry_frames 25 (emotionRef_init, Map.empty))) Angry = Some 0.7"
  using C8_angry_reaches_peak [of "(emotionRef_init, Map.empty)" 20]
        C8_angry_reaches_peak [of "(emotionRef_init, Map.empty)" 19]
        C8_angry_reaches_peak [of "(emotionRef_init, Map.empty)" 25]
  by (simp add: emotionRef_init_def)

section \<open>Blinking: properties\<close>

lemma blink_tick_onset:
  assumes "\<not> isBlinking (fst st)" and "timer (fst st) - delta \<le> 0" and "0 \<le> r1"
  shows "fst (blink_tick delta r1 r2 st) = \<lparr>timer = 2 + r1 * 4, isBlinking = True\<rparr>"
  using assms by (cases "fst st") (simp add: blink_tick_def Let_def)

lemma blink_tick_continues:
  assumes "isBlinking (fst st)" and "0 < timer (fst st) - delta"
  shows "fst (blink_tick delta r1 r2 st) = \<lparr>timer = timer (fst st) - delta, isBlinking = True\<rparr>"
  using assms by (cases "fst st") (simp add: blink_tick_def Let_def)

lemma blink_tick_completes:
  assumes "isBlinking (fst st)" and "timer (fst st) - delta \<le> 0"
  shows "blink_tick delta r1 r2 st =
           (\<lparr>timer = 2 + r2 * 4, isBlinking = False\<rparr>, setValue (snd st) Blink 0)"
  using assms by (cases "fst st") (simp add: blink_tick_def Let_def)

lemma blink_frames_Suc:
  "blink_frames delta r (Suc n) st = blink_tick delta r r (blink_frames delta r n st)"
  by (simp add: blink_frames_def)

lemma blink_frames_Suc2:
  "blink_frames delta r (Suc n) st = blink_frames delta r n (blink_tick delta r r st)"
  by (simp add: blink_frames_def funpow_swap1)

lemma blink_frames_continue:
  assumes "isBlinking (fst st)" and "real n * delta < timer (fst st)" and "0 \<le> delta"
  shows "fst (blink_frames delta r n st) =
           \<lparr>timer = timer (fst st) - real n * delta, isBlinking = True\<rparr>"
  using assms
proof (induction n)
  case 0
  then show ?case by (cases "fst st") (simp add: blink_frames_def)
next
  case (Suc n)
  have lt: "real n * delta < timer (fst st)"
    using Suc.prems by (simp add: algebra_simps)
  have ih: "fst (blink_frames delta r n st) =
              \<lparr>timer = timer (fst st) - real n * delta, isBlinking = True\<rparr>"
    using Suc.IH [OF Suc.prems(1) lt Suc.prems(3)] .
  have "fst (blink_tick delta r r (blink_frames delta r n st)) =
          \<lparr>timer = timer (fst (blink_frames delta r n st)) - delta, isBlinking = True\<rparr>"
    by (rule blink_tick_continues) (use ih Suc.prems in \<open>simp_all add: algebra_simps\<close>)
  then show ?case
    by (simp add: blink_frames_Suc ih algebra_simps)
qed

text \<open>A blink that starts lasts as long as the interval drawn at its start: at least 2 s.\<close>

lemma blink_lasts_whole_interval:
  assumes "\<not> isBlinking (fst st)" and "timer (fst st) - delta \<le> 0"
    and "0 \<le> r" and "0 \<le> delta" and "real n * delta < 2 + r * 4"
  shows "fst (blink_frames delta r (Suc n) st) =
           \<lparr>timer = 2 + r * 4 - real n * delta, isBlinking = True\<rparr>"
proof -
  let ?st1 = "blink_tick delta r r st"
  have onset: "fst ?st1 = \<lparr>timer = 2 + r * 4, isBlinking = True\<rparr>"
    by (rule blink_tick_onset [OF assms(1,2,3)])
  have "fst (blink_frames delta r n ?st1) =
          \<lparr>timer = timer (fst ?st1) - real n * delta, isBlinking = True\<rparr>"
    by (rule blink_frames_continue) (use onset assms in simp_all)
  then show ?thesis
    by (simp add: blink_frames_Suc2 onset)
qed

text \<open>
  C1 (what the code does). The claim is that a blink, once started, is over within
  0.15 s of frame time. In the code the frame that starts a blink also sets the timer
  to the next interval, \<open>2 + Math.random() * 4\<close> seconds, and the blink ends only when
  that timer has run down: from the initial state with every random draw 0, the first
  frame starts a blink with the timer at 2; the blink is still in progress 5 frames of
  1/30 s later (0.167 s), 22 frames of 1/144 s later (0.153 s), and 59 frames of 1/30 s
  later; it ends on the 60th frame after its start, 2 s later.
\<close>

theorem C1_blink_outlasts_150ms:
  "fst (blink_frames (1 / 30) 0 1 (blinkRef_init, Map.empty)) = \<lparr>timer = 2, isBlinking = True\<rparr>
 \<and> isBlinking (fst (blink_frames (1 / 30) 0 6 (blinkRef_init, Map.empty)))
 \<and> isBlinking (fst (blink_frames (1 / 144) 0 23 (blinkRef_init, Map.empty)))
 \<and> isBlinking (fst (blink_frames (1 / 30) 0 60 (blinkRef_init, Map.empty)))
 \<and> \<not> isBlinking (fst (blink_frames (1 / 30) 0 61 (blinkRef_init, Map.empty)))"
proof -
  let ?s = "(blinkRef_init, Map.empty) :: blinkRef \<times> expressionManager"
  have nb: "\<not> isBlinking (fst ?s)" and t30: "timer (fst ?s) - 1 / 30 \<le> 0"
    and t144: "timer (fst ?s) - 1 / 144 \<le> 0"
    by (simp_all add: blinkRef_init_def)
  have a: "fst (blink_frames (1 / 30) 0 (Suc 0) ?s) = \<lparr>timer = 2, isBlinking = True\<rparr>"
    using blink_lasts_whole_interval [OF nb t30, of 0 0] by simp
  have b: "isBlinking (fst (blink_frames (1 / 30) 0 (Suc 5) ?s))"
    using blink_lasts_whole_interval [OF nb t30, of 0 5] by simp
  have c: "isBlinking (fst (blink_frames (1 / 144) 0 (Suc 22) ?s))"
    using blink_lasts_whole_interval [OF nb t144, of 0 22] by simp
  define X where "X = blink_frames (1 / 30) 0 (Suc 59) ?s"
  have d: "fst X = \<lparr>timer = 1 / 30, isBlinking = True\<rparr>"
    unfolding X_def using blink_lasts_whole_interval [OF nb t30, of 0 59] by simp
  have d1: "isBlinking (fst X)" and d2: "timer (fst X) - 1 / 30 \<le> 0"
    by (simp_all add: d)
  have "\<not> isBlinking (fst (blink_tick (1 / 30) 0 0 X))"
    by (simp add: blink_tick_completes [OF d1 d2])
  then have e: "\<not> isBlinking (fst (blink_frames (1 / 30) 0 (Suc (Suc 59)) ?s))"
    unfolding X_def blink_frames_Suc [of _ _ "Suc 59"] .
  have d': "isBlinking (fst (blink_frames (1 / 30) 0 (Suc 59) ?s))"
    using d1 unfolding X_def .
  have n: "(1::nat) = Suc 0" "(6::nat) = Suc 5" "(23::nat) = Suc 22" "(60::nat) = Suc 59"
    "(61::nat) = Suc (Suc 59)"
    by simp_all
  from a b c d' e show ?thesis
    by (simp only: n) simp
qed

section \<open>The frame as a whole: properties\<close>

lemma snd_lipSync_tick_other:
  "e \<noteq> Aa \<Longrightarrow> e \<noteq> Oh \<Longrightarrow> snd (lipSync_tick sp a t r st) e = snd st e"
  by (simp add: lipSync_tick_def Let_def setValue_def)

lemma snd_blink_tick_other:
  "e \<noteq> Blink \<Longrightarrow> snd (blink_tick delta r1 r2 st) e = snd st e"
  by (simp add: blink_tick_def Let_def setValue_def)

lemma useFrame_expressions:
  "vrm_ready a \<Longrightarrow>
   expressions (useFrame i a) =
     snd (emotion_tick (f_delta i) (f_currentEmotion i)
       (emotion_ref a,
        snd (blink_tick (f_delta i) (rnd_blink_start i) (rnd_blink_end i)
          (blink_ref a,
           snd (lipSync_tick (f_isSpeaking i) (f_audioLevel i) (f_time i) (rnd_lip i)
             (lipSync_ref a, expressions a))))))"
  by (simp add: useFrame_def Let_def split_def)

lemma useFrame_emotion_ref:
  "vrm_ready a \<Longrightarrow>
   emotion_ref (useFrame i a) =
     \<lparr>current = f_currentEmotion i,
      blendValue = min 1 ((if current (emotion_ref a) = f_currentEmotion i
                           then blendValue (emotion_ref a) else 0) + f_delta i * emotionSpeed)\<rparr>"
  by (simp add: useFrame_def Let_def split_def fst_emotion_tick)

lemma before_emotion_block:
  assumes "e \<notin> {Aa, Oh, Blink}"
  shows "snd (blink_tick d r1 r2 (b, snd (lipSync_tick sp al t r (l, em)))) e = em e"
  using assms by (simp add: snd_blink_tick_other snd_lipSync_tick_other)

lemma neutral_frame_standard:
  assumes "vrm_ready a" and "f_currentEmotion i = neutral" and "e \<in> set expressionsToReset"
  shows "getValue (expressions (useFrame i a)) e =
           (if or0 (getValue (expressions a) e) > 0
            then Some (max 0 (or0 (getValue (expressions a) e) - f_delta i * 3))
            else getValue (expressions a) e)"
proof -
  have e: "e \<notin> {Aa, Oh, Blink}" "e \<noteq> Neutral"
    using assms(3) by (auto simp: expressionsToReset_def)
  show ?thesis
    using assms(3) e(2)
    by (simp add: getValue_def useFrame_expressions [OF assms(1)] assms(2) snd_emotion_tick
          reset_all before_emotion_block [OF e(1)] emotionSpeed_def)
qed

lemma neutral_frame_Neutral:
  assumes "vrm_ready a" and "f_currentEmotion i = neutral"
  shows "getValue (expressions (useFrame i a)) Neutral =
           Some (blendValue (emotion_ref (useFrame i a)) * 0.7)"
  by (simp add: getValue_def useFrame_expressions [OF assms(1)] assms(2) snd_emotion_tick
        useFrame_emotion_ref [OF assms(1)] fst_emotion_tick)

lemma neutral_frame_other:
  assumes "vrm_ready a" and "f_currentEmotion i = neutral"
    and "e \<notin> set spec_expression_channels" and "e \<noteq> Neutral"
  shows "getValue (expressions (useFrame i a)) e = getValue (expressions a) e"
proof -
  have e: "e \<notin> {Aa, Oh, Blink}" "e \<notin> set expressionsToReset"
    using assms(3) by (auto simp: expressionsToReset_def spec_expression_channels_def)
  show ?thesis
    using assms(4) e(2)
    by (simp add: getValue_def useFrame_expressions [OF assms(1)] assms(2) snd_emotion_tick
          reset_all before_emotion_block [OF e(1)])
qed

text \<open>
  C5 (as stated, refuted). The table maps \<open>neutral\<close> to the VRM preset \<open>Neutral\<close>, so a
  frame with the emotion \<open>neutral\<close> sets the expression \<open>neutral\<close>, which is none of the
  eight listed channels, to the positive weight \<open>blendValue * 0.7\<close>: 0.035 on the first
  frame of 1/60 s.
\<close>

theorem C5_neutral_counterexample:
  "getValue (expressions (useFrame neutral_frame avatar_init)) Neutral = Some (7 / 200)
 \<and> Neutral \<notin> set spec_expression_channels"
proof -
  have r: "vrm_ready avatar_init" and n: "f_currentEmotion neutral_frame = neutral"
    by (simp_all add: avatar_init_def neutral_frame_def)
  have "blendValue (emotion_ref (useFrame neutral_frame avatar_init)) = 1 / 20"
    by (simp add: useFrame_emotion_ref [OF r] n)
       (simp add: avatar_init_def neutral_frame_def emotionRef_init_def emotionSpeed_def)
  then show ?thesis
    by (simp add: neutral_frame_Neutral [OF r n] spec_expression_channels_def)
qed

text \<open>
  C5 (amended). On a frame with the emotion \<open>neutral\<close>, each of the standard expressions
  (happy, angry, sad, surprised, relaxed) that is active decays by \<open>delta * 3\<close> towards 0
  and none of them is set to a target weight; the expression \<open>neutral\<close> is set to
  \<open>blendValue * 0.7\<close>; no expression other than the eight listed channels and \<open>neutral\<close>
  is written.
\<close>

theorem C5_neutral_frame:
  assumes "vrm_ready a" and "f_currentEmotion i = neutral"
  shows "(\<forall>e \<in> set expressionsToReset.
            getValue (expressions (useFrame i a)) e =
              (if or0 (getValue (expressions a) e) > 0
               then Some (max 0 (or0 (getValue (expressions a) e) - f_delta i * 3))
               else getValue (expressions a) e))
       \<and> getValue (expressions (useFrame i a)) Neutral =
           Some (blendValue (emotion_ref (useFrame i a)) * 0.7)
       \<and> (\<forall>e. e \<notin> set spec_expression_channels \<and> e \<noteq> Neutral \<longrightarrow>
            getValue (expressions (useFrame i a)) e = getValue (expressions a) e)"
  using neutral_frame_standard [OF assms] neutral_frame_Neutral [OF assms]
    neutral_frame_other [OF assms]
  by blast

theorem C5_neutral_frame_witness:
  "getValue (expressions (useFrame neutral_frame (avatar_init\<lparr>expressions := [Happy \<mapsto> 1 / 2]\<rparr>)))
     Happy = Some (9 / 20)
 \<and> getValue (expressions (useFrame neutral_frame (avatar_init\<lparr>expressions := [Happy \<mapsto> 1 / 2]\<rparr>)))
     Neutral = Some (7 / 200)
 \<and> getValue (expressions (useFrame neutral_frame (avatar_init\<lparr>expressions := [Happy \<mapsto> 1 / 2]\<rparr>)))
     (OtherExpression ''lookUp'') = None"
proof -
  let ?a = "avatar_init\<lparr>expressions := [Happy \<mapsto> 1 / 2]\<rparr>"
  have r: "vrm_ready ?a" and n: "f_currentEmotion neutral_frame = neutral"
    by (simp_all add: avatar_init_def neutral_frame_def)
  have b: "blendValue (emotion_ref (useFrame neutral_frame ?a)) = 1 / 20"
    by (simp add: useFrame_emotion_ref [OF r] n)
       (simp add: avatar_init_def neutral_frame_def emotionRef_init_def emotionSpeed_def)
  have d: "f_delta neutral_frame = 1 / 60"
    by (simp add: neutral_frame_def)
  show ?thesis
    using C5_neutral_frame [OF r n]
    by (simp add: b d expressionsToReset_def spec_expression_channels_def getValue_def)
qed

section \<open>Body poses: properties\<close>

lemma length_poses: "length poses = 5"
  by (simp add: poses_def)

lemma pose_blend_indices:
  "targetPoseIndex (pose_blend delta p) = targetPoseIndex p"
  "currentPoseIndex (pose_blend delta p) = currentPoseIndex p"
  by (simp_all add: pose_blend_def Let_def)

lemma pose_decision_fires:
  assumes "pose_decides delta sp p"
  shows "currentPoseIndex (pose_decision delta sp e r p) = targetPoseIndex p"
    and "targetPoseIndex (pose_decision delta sp e r p) =
           (if pick_pose sp e r = targetPoseIndex p
            then (pick_pose sp e r + 1) mod 5 else pick_pose sp e r)"
    and "blendFactor (pose_decision delta sp e r p) = 0"
    and "poseTimer (pose_decision delta sp e r p) = 0"
  using assms by (simp_all add: pose_decision_def pose_decides_def Let_def length_poses)

lemma pose_decision_waits:
  assumes "\<not> pose_decides delta sp p"
  shows "pose_decision delta sp e r p = p\<lparr>poseTimer := poseTimer p + delta\<rparr>"
  using assms by (simp add: pose_decision_def pose_decides_def Let_def)

lemma next_index_differs: "(n + 1) mod 5 \<noteq> (n::nat)"
  by presburger

lemma pose_tick_no_repeat:
  assumes "pose_decides delta sp p"
  shows "currentPoseIndex (pose_tick delta sp e r p) = targetPoseIndex p"
    and "targetPoseIndex (pose_tick delta sp e r p) \<noteq> targetPoseIndex p"
  using next_index_differs [of "targetPoseIndex p"]
  by (simp_all add: pose_tick_def pose_blend_indices pose_decision_fires [OF assms])

lemma pose_tick_keeps_target:
  assumes "\<not> pose_decides delta sp p"
  shows "targetPoseIndex (pose_tick delta sp e r p) = targetPoseIndex p"
  by (simp add: pose_tick_def pose_blend_indices pose_decision_waits [OF assms])

lemma pose_targets_distinct_adj:
  "distinct_adj (targetPoseIndex p # pose_targets p ins)"
proof (induction ins arbitrary: p)
  case Nil
  show ?case by simp
next
  case (Cons i ins)
  obtain delta sp e r where i: "i = (delta, sp, e, r)"
    by (cases i)
  let ?p' = "pose_tick delta sp e r p"
  have ih: "distinct_adj (targetPoseIndex ?p' # pose_targets ?p' ins)"
    by (rule Cons.IH)
  show ?case
  proof (cases "pose_decides delta sp p")
    case True
    then show ?thesis
      using ih pose_tick_no_repeat(2) [OF True, of e r] by (simp add: i)
  next
    case False
    then show ?thesis
      using ih pose_tick_keeps_target [OF False, of e r] by (simp add: i)
  qed
qed

lemma random_index_less:
  assumes "0 \<le> r" and "r < 1" and "0 < n"
  shows "random_index r n < n"
proof -
  have "r * real n < real n"
    using assms by simp
  then have "\<lfloor>r * real n\<rfloor> < int n"
    by (simp add: floor_less_iff)
  moreover have "0 \<le> \<lfloor>r * real n\<rfloor>"
    using assms by simp
  ultimately show ?thesis
    by (simp add: random_index_def nat_less_iff)
qed

lemma pick_pose_in_range:
  assumes "0 \<le> r" and "r < 1"
  shows "pick_pose sp e r < length poses"
proof -
  have s: "random_index r (length speakingPoses) < length speakingPoses"
    by (rule random_index_less [OF assms]) (simp add: speakingPoses_def)
  have i: "random_index r (length idlePoses) < length idlePoses"
    by (rule random_index_less [OF assms]) (simp add: idlePoses_def)
  have "\<forall>k \<in> set speakingPoses. k < 5" "\<forall>k \<in> set idlePoses. k < 5"
    by (simp_all add: speakingPoses_def idlePoses_def)
  then have "speakingPoses ! random_index r (length speakingPoses) < 5"
    "idlePoses ! random_index r (length idlePoses) < 5"
    using s i by (simp_all only: nth_mem)
  then show ?thesis
    by (simp add: pick_pose_def length_poses)
qed

text \<open>
  With random draws in the range of \<open>Math.random()\<close> the pose indices stay inside the
  catalog, so the blend always reads two of its five poses.
\<close>

lemma pose_tick_indices_in_range:
  assumes "0 \<le> r" and "r < 1"
    and "currentPoseIndex p < length poses" and "targetPoseIndex p < length poses"
  shows "currentPoseIndex (pose_tick delta sp e r p) < length poses
       \<and> targetPoseIndex (pose_tick delta sp e r p) < length poses"
proof (cases "pose_decides delta sp p")
  case True
  have "pick_pose sp e r < 5"
    using pick_pose_in_range [OF assms(1,2), of sp e] by (simp add: length_poses)
  then show ?thesis
    using assms(4)
    by (simp add: pose_tick_def pose_blend_indices pose_decision_fires [OF True] length_poses)
next
  case False
  then show ?thesis
    using assms(3,4) by (simp add: pose_tick_def pose_blend_indices pose_decision_waits)
qed

text \<open>
  C6. Whenever a frame takes a pose decision, the previous target becomes the current
  index, a picked index equal to it is advanced by one modulo the five poses of the
  catalog, and the new target differs from it, whatever the random draw, the speaking
  flag and the emotion; so in every run of frames from every state no two consecutive
  decisions select the same pose index.
\<close>

theorem C6_no_repeat:
  "(pose_decides delta sp p \<longrightarrow>
      currentPoseIndex (pose_tick delta sp e r p) = targetPoseIndex p
    \<and> targetPoseIndex (pose_tick delta sp e r p) =
        (if pick_pose sp e r = targetPoseIndex p
         then (pick_pose sp e r + 1) mod length poses else pick_pose sp e r)
    \<and> targetPoseIndex (pose_tick delta sp e r p) \<noteq> currentPoseIndex (pose_tick delta sp e r p))
 \<and> distinct_adj (targetPoseIndex p # pose_targets p ins)"
proof -
  have "targetPoseIndex (pose_tick delta sp e r p) =
          (if pick_pose sp e r = targetPoseIndex p
           then (pick_pose sp e r + 1) mod length poses else pick_pose sp e r)"
    if "pose_decides delta sp p"
    by (simp add: pose_tick_def pose_blend_indices pose_decision_fires [OF that] length_poses)
  then show ?thesis
    using pose_tick_no_repeat [of delta sp p e r] pose_targets_distinct_adj [of p ins]
    by simp
qed

theorem C6_no_repeat_witness:
  "pose_decides (1 / 60) False (poseAnimRef_init\<lparr>poseTimer := 5\<rparr>)
 \<and> currentPoseIndex (pose_tick (1 / 60) False neutral 0 (poseAnimRef_init\<lparr>poseTimer := 5\<rparr>))
     = targetPoseIndex (poseAnimRef_init\<lparr>poseTimer := 5\<rparr>)
 \<and> targetPoseIndex (pose_tick (1 / 60) False neutral 0 (poseAnimRef_init\<lparr>poseTimer := 5\<rparr>))
     \<noteq> currentPoseIndex (pose_tick (1 / 60) False neutral 0 (poseAnimRef_init\<lparr>poseTimer := 5\<rparr>))
 \<and> distinct_adj (targetPoseIndex (poseAnimRef_init\<lparr>poseTimer := 5\<rparr>)
       # pose_targets (poseAnimRef_init\<lparr>poseTimer := 5\<rparr>) [(1 / 60, False, neutral, 0)])"
  using C6_no_repeat [of "1 / 60" False "poseAnimRef_init\<lparr>poseTimer := 5\<rparr>" neutral 0
          "[(1 / 60, False, neutral, 0)]"]
  by (simp add: pose_decides_def poseChangeInterval_def poseAnimRef_init_def)

text \<open>The same frame, evaluated: the draw 0 picks pose 0 again, and the rule moves on to 1.\<close>

lemma pose_decision_example:
  "targetPoseIndex (pose_tick (1 / 60) False neutral 0 (poseAnimRef_init\<lparr>poseTimer := 5\<rparr>)) = 1"
proof -
  have d: "pose_decides (1 / 60) False (poseAnimRef_init\<lparr>poseTimer := 5\<rparr>)"
    by (simp add: pose_decides_def poseChangeInterval_def poseAnimRef_init_def)
  have "pick_pose False neutral 0 = 0"
    by (simp add: pick_pose_def idlePoses_def random_index_def)
  then show ?thesis
    by (simp add: pose_tick_def pose_blend_indices pose_decision_fires [OF d])
       (simp add: poseAnimRef_init_def)
qed

section \<open>Audio level: properties\<close>

lemma fold_add_sum_list:
  "fold (\<lambda>i sum. sum + f i) xs a = a + sum_list (map f xs)"
  by (induction xs arbitrary: a) (simp_all add: add.assoc)

lemma map_nth_upt_take_drop:
  "m + k \<le> length d \<Longrightarrow> map ((!) d) [m ..< m + k] = take k (drop m d)"
  by (simp add: list_eq_iff_nth_eq)

lemma bins_sum_take_drop:
  assumes "m + k \<le> length d"
  shows "(\<Sum>i \<leftarrow> [m ..< m + k]. real (unat (d ! i))) =
           sum_list (map (\<lambda>w. real (unat w)) (take k (drop m d)))"
proof -
  have "map (\<lambda>i. real (unat (d ! i))) [m ..< m + k] =
          map (\<lambda>w. real (unat w)) (map ((!) d) [m ..< m + k])"
    by simp
  then show ?thesis
    by (simp only: map_nth_upt_take_drop [OF assms])
qed

lemma voice_sum_bins:
  assumes "20 \<le> length d"
  shows "voice_sum d = (\<Sum>i \<leftarrow> [2 ..< 20]. real (unat (d ! i)))"
  using assms
  by (simp add: voice_sum_def voiceRangeStart_def voiceRangeEnd_def fold_add_sum_list)

lemma length_loud_frame: "length loud_frame = frequencyBinCount"
  by (simp add: loud_frame_def frequencyBinCount_def fftSize_def)

lemma voice_sum_loud_frame: "voice_sum loud_frame = 3240"
proof -
  have "voice_sum loud_frame = (\<Sum>i \<leftarrow> [2 ..< 2 + 18]. real (unat (loud_frame ! i)))"
    by (simp add: voice_sum_bins loud_frame_def)
  also have "\<dots> = sum_list (map (\<lambda>w. real (unat w)) (take 18 (drop 2 loud_frame)))"
    by (rule bins_sum_take_drop) (simp add: loud_frame_def)
  also have "\<dots> = 3240"
    by (simp add: loud_frame_def sum_list_replicate)
  finally show ?thesis .
qed

lemma spec_mean_loud_frame: "spec_mean_2_to_20 loud_frame = 3240 / 19"
proof -
  have "(\<Sum>i \<leftarrow> [2 ..< 2 + 19]. real (unat (loud_frame ! i))) =
          sum_list (map (\<lambda>w. real (unat w)) (take 19 (drop 2 loud_frame)))"
    by (rule bins_sum_take_drop) (simp add: loud_frame_def)
  also have "\<dots> = 3240"
    by (simp add: loud_frame_def sum_list_replicate)
  finally show ?thesis
    by (simp add: spec_mean_2_to_20_def)
qed

lemma normalized_range: "0 \<le> normalized avg \<and> normalized avg \<le> 1"
  by (simp add: normalized_def)

lemma analyze_active:
  assumes "has_analyser s" and "isPlaying s" and "20 \<le> length d"
  shows "analyze d s =
           Inr (s\<lparr>currentAudioLevel :=
                    currentAudioLevel s * 0.3
                    + clamp01 (((\<Sum>i \<leftarrow> [2 ..< 20]. real (unat (d ! i))) / 18 - 30) / 150) * 0.7,
                  animationFrameId := True\<rparr>)"
proof -
  have "average d = Inr ((\<Sum>i \<leftarrow> [2 ..< 20]. real (unat (d ! i))) / 18)"
    using assms(3)
    by (simp add: average_def voice_sum_bins) (simp add: voiceRangeEnd_def voiceRangeStart_def)
  then show ?thesis
    using assms(1,2) by (simp add: analyze_def normalized_def clamp01_def max.commute min.commute)
qed

lemma average_loud_frame: "average loud_frame = Inr 180"
  by (simp add: average_def voice_sum_loud_frame)
     (simp add: voiceRangeEnd_def voiceRangeStart_def loud_frame_def)

text \<open>
  C3 (as stated, refuted). The loop runs over the indices 2 to 19 and the sum is divided
  by 18: bin 20 is not read. For the frame with 180 in the bins 2 to 19 and 0 in bin 20
  the code's average is 180 and the level moves from 0 to 0.7, while the mean of the
  19 bins 2 to 20 is 3240/19, which would give the raw level 89/95 and a different
  level.
\<close>

theorem C3_bins_counterexample:
  "analyze loud_frame playing_service =
     Inr (playing_service\<lparr>currentAudioLevel := 7 / 10, animationFrameId := True\<rparr>)
 \<and> currentAudioLevel playing_service * 0.3 + spec_raw_level loud_frame * 0.7 \<noteq> 7 / 10"
proof -
  have "analyze loud_frame playing_service =
     Inr (playing_service\<lparr>currentAudioLevel := 7 / 10, animationFrameId := True\<rparr>)"
    by (simp add: analyze_def average_loud_frame playing_service_def tts_service_init_def
          normalized_def)
  moreover have "spec_raw_level loud_frame = 89 / 95"
    by (simp add: spec_raw_level_def spec_mean_loud_frame clamp01_def)
  ultimately show ?thesis
    by (simp add: playing_service_def tts_service_init_def)
qed

text \<open>
  C3 (amended). On an analysis tick with an analyser and audio playing, for a frame of
  at least 20 bins (\<open>dataArray\<close> has 128), the raw level is \<open>clamp((m - 30) / 150, 0, 1)\<close>
  where \<open>m\<close> is the arithmetic mean of the bins at indices 2 through 19 inclusive (18
  bins), and the level becomes \<open>level * 0.3 + raw * 0.7\<close>; without analyser or playback
  the tick sets the level to 0.
\<close>

theorem C3_audio_level:
  assumes "20 \<le> length d"
  shows "(has_analyser s \<and> isPlaying s \<longrightarrow>
            analyze d s =
              Inr (s\<lparr>currentAudioLevel :=
                       currentAudioLevel s * 0.3
                       + clamp01 (((\<Sum>i \<leftarrow> [2 ..< 20]. real (unat (d ! i))) / 18 - 30) / 150)
                         * 0.7,
                     animationFrameId := True\<rparr>))
       \<and> (\<not> (has_analyser s \<and> isPlaying s) \<longrightarrow>
            analyze d s = Inr (s\<lparr>currentAudioLevel := 0\<rparr>))"
  using analyze_active [OF _ _ assms, of s] by (auto simp: analyze_def)

theorem C3_audio_level_witness:
  "20 \<le> length loud_frame
 \<and> analyze loud_frame playing_service =
     Inr (playing_service\<lparr>currentAudioLevel := 7 / 10, animationFrameId := True\<rparr>)
 \<and> analyze loud_frame tts_service_init = Inr tts_service_init"
proof -
  have len: "20 \<le> length loud_frame"
    by (simp add: loud_frame_def)
  have s: "(\<Sum>i \<leftarrow> [2 ..< 20]. real (unat (loud_frame ! i))) = 3240"
    using voice_sum_bins [OF len] voice_sum_loud_frame by simp
  show ?thesis
    using C3_audio_level [OF len, of playing_service, unfolded s]
      C3_audio_level [OF len, of tts_service_init, unfolded s]
    by (simp add: len clamp01_def playing_service_def tts_service_init_def)
qed

section \<open>Ranges of the level and of the mouth shapes\<close>

lemma analyze_level_range:
  assumes "0 \<le> currentAudioLevel s" and "currentAudioLevel s \<le> 1" and "length d \<noteq> 2"
  shows "\<exists>s'. analyze d s = Inr s' \<and> 0 \<le> currentAudioLevel s' \<and> currentAudioLevel s' \<le> 1"
proof (cases "has_analyser s \<and> isPlaying s")
  case False
  then show ?thesis by (auto simp: analyze_def)
next
  case True
  have ne: "voiceRangeEnd d \<noteq> voiceRangeStart"
    using assms(3) by (simp add: voiceRangeEnd_def voiceRangeStart_def min_def)
  define raw where "raw = normalized (voice_sum d /
                  real_of_int (int (voiceRangeEnd d) - int voiceRangeStart))"
  have raw: "0 \<le> raw" "raw \<le> 1"
    using normalized_range by (simp_all add: raw_def)
  have "analyze d s =
          Inr (s\<lparr>currentAudioLevel := currentAudioLevel s * 0.3 + raw * 0.7,
                 animationFrameId := True\<rparr>)"
    using True ne by (simp add: analyze_def average_def raw_def)
  moreover have "0 \<le> currentAudioLevel s * 0.3 + raw * 0.7"
    using assms(1) raw(1) by simp
  moreover have "currentAudioLevel s * 0.3 + raw * 0.7 \<le> 1"
    using assms(2) raw(2) by simp
  ultimately show ?thesis by simp
qed

lemma tts_step_level_range:
  assumes "0 \<le> currentAudioLevel s" and "currentAudioLevel s \<le> 1"
    and "\<forall>d \<in> set (event_frames ev). length d \<noteq> 2"
  shows "\<exists>s'. tts_step ev s = Inr s' \<and> 0 \<le> currentAudioLevel s' \<and> currentAudioLevel s' \<le> 1"
proof (cases ev)
  case SetupAudioContext
  then show ?thesis using assms by (simp add: setupAudioContext_def)
next
  case (OnPlay d)
  then show ?thesis
    using assms analyze_level_range [of "s\<lparr>isPlaying := True\<rparr>" d] by simp
next
  case (AnimationFrame d)
  then show ?thesis
    using assms analyze_level_range [of s d] by simp
next
  case OnEnded
  then show ?thesis by (simp add: stopAudioAnalysis_def)
next
  case Stop
  then show ?thesis by (simp add: stopAudioAnalysis_def)
qed

lemma tts_run_level_range:
  assumes "0 \<le> currentAudioLevel s" and "currentAudioLevel s \<le> 1"
    and "\<forall>ev \<in> set evs. \<forall>d \<in> set (event_frames ev). length d \<noteq> 2"
  shows "\<exists>s'. tts_run s evs = Inr s' \<and> 0 \<le> currentAudioLevel s' \<and> currentAudioLevel s' \<le> 1"
  using assms
proof (induction evs arbitrary: s)
  case Nil
  then show ?case by simp
next
  case (Cons ev evs)
  obtain s1 where s1: "tts_step ev s = Inr s1" "0 \<le> currentAudioLevel s1" "currentAudioLevel s1 \<le> 1"
    using tts_step_level_range [of s ev] Cons.prems by auto
  have "\<exists>s'. tts_run s1 evs = Inr s' \<and> 0 \<le> currentAudioLevel s' \<and> currentAudioLevel s' \<le> 1"
    by (rule Cons.IH) (use s1 Cons.prems in simp_all)
  then show ?case
    by (simp add: s1(1))
qed

lemma mouthOpenValue_range: "0 \<le> mouthOpenValue l \<and> mouthOpenValue l \<le> 1"
  by (simp add: mouthOpenValue_def)

lemma snd_lipSync_tick_mouth:
  "snd (lipSync_tick sp al t r st) Aa = Some (mouthOpenValue (fst (lipSync_tick sp al t r st)) * 0.9)"
  "snd (lipSync_tick sp al t r st) Oh = Some (mouthOpenValue (fst (lipSync_tick sp al t r st)) * 0.4)"
  by (simp_all add: lipSync_tick_def Let_def setValue_def)

lemma snd_emotion_tick_other:
  assumes "e \<notin> set expressionsToReset" and "e \<noteq> Neutral"
  shows "snd (emotion_tick delta l st) e = snd st e"
proof -
  have ne: "e \<noteq> Happy" "e \<noteq> Angry" "e \<noteq> Sad" "e \<noteq> Surprised" "e \<noteq> Relaxed"
    using assms(1) by (simp_all add: expressionsToReset_def)
  have r: "fold (reset_expression delta) expressionsToReset (snd st) e = snd st e"
    using assms(1) by (simp add: reset_all)
  show ?thesis
    using ne assms(2) by (cases l) (simp_all add: snd_emotion_tick r)
qed

lemma useFrame_mouth:
  assumes "vrm_ready a"
  shows "getValue (expressions (useFrame i a)) Aa =
           Some (mouthOpenValue (lipSync_ref (useFrame i a)) * 0.9)"
    and "getValue (expressions (useFrame i a)) Oh =
           Some (mouthOpenValue (lipSync_ref (useFrame i a)) * 0.4)"
proof -
  have l: "lipSync_ref (useFrame i a) =
             fst (lipSync_tick (f_isSpeaking i) (f_audioLevel i) (f_time i) (rnd_lip i)
                    (lipSync_ref a, expressions a))"
    using assms by (simp add: useFrame_def Let_def split_def)
  show "getValue (expressions (useFrame i a)) Aa =
           Some (mouthOpenValue (lipSync_ref (useFrame i a)) * 0.9)"
    by (simp add: getValue_def useFrame_expressions [OF assms] l snd_emotion_tick_other
          snd_blink_tick_other snd_lipSync_tick_mouth expressionsToReset_def)
  show "getValue (expressions (useFrame i a)) Oh =
           Some (mouthOpenValue (lipSync_ref (useFrame i a)) * 0.4)"
    by (simp add: getValue_def useFrame_expressions [OF assms] l snd_emotion_tick_other
          snd_blink_tick_other snd_lipSync_tick_mouth expressionsToReset_def)
qed

text \<open>
  C9. From the initial service, after every sequence of audio events whose frames have
  the 128 bins of \<open>dataArray\<close>, the analysis has produced a level and the level is in
  [0,1]; and after every frame, whatever the inputs and the state before it, the
  weights written for the mouth shapes \<open>aa\<close> (primaryOpen) and \<open>oh\<close> (roundedOpen) are in
  [0,1].
\<close>

theorem C9_ranges:
  assumes "\<forall>ev \<in> set evs. \<forall>d \<in> set (event_frames ev). length d = frequencyBinCount"
  shows "(\<exists>s. tts_run tts_service_init evs = Inr s
              \<and> 0 \<le> currentAudioLevel s \<and> currentAudioLevel s \<le> 1)
       \<and> 0 \<le> primaryOpen (lipSync_tick sp al t r st) \<and> primaryOpen (lipSync_tick sp al t r st) \<le> 1
       \<and> 0 \<le> roundedOpen (lipSync_tick sp al t r st) \<and> roundedOpen (lipSync_tick sp al t r st) \<le> 1
       \<and> (vrm_ready a \<longrightarrow>
            0 \<le> or0 (getValue (expressions (useFrame i a)) Aa)
          \<and> or0 (getValue (expressions (useFrame i a)) Aa) \<le> 1
          \<and> 0 \<le> or0 (getValue (expressions (useFrame i a)) Oh)
          \<and> or0 (getValue (expressions (useFrame i a)) Oh) \<le> 1)"
proof -
  have "\<forall>ev \<in> set evs. \<forall>d \<in> set (event_frames ev). length d \<noteq> 2"
    using assms by (simp add: frequencyBinCount_def fftSize_def)
  then have loud: "\<exists>s. tts_run tts_service_init evs = Inr s
              \<and> 0 \<le> currentAudioLevel s \<and> currentAudioLevel s \<le> 1"
    by (intro tts_run_level_range) (simp_all add: tts_service_init_def)
  have m: "0 \<le> mouthOpenValue l * 0.9 \<and> mouthOpenValue l * 0.9 \<le> 1
         \<and> 0 \<le> mouthOpenValue l * 0.4 \<and> mouthOpenValue l * 0.4 \<le> 1" for l
    using mouthOpenValue_range [of l] by simp
  show ?thesis
    using loud m
    by (simp add: primaryOpen_tick roundedOpen_tick useFrame_mouth)
qed

theorem C9_ranges_witness:
  "tts_run tts_service_init [SetupAudioContext, OnPlay loud_frame, AnimationFrame loud_frame] =
     Inr \<lparr>has_analyser = True, isPlaying = True, animationFrameId = True,
          currentAudioLevel = 91 / 100\<rparr>
 \<and> primaryOpen (lipSync_tick True 1 0 0 (lipSyncRef_init, Map.empty)) = 27 / 50
 \<and> roundedOpen (lipSync_tick True 1 0 0 (lipSyncRef_init, Map.empty)) = 6 / 25
 \<and> or0 (getValue (expressions (useFrame neutral_frame avatar_init)) Aa) = 0"
proof -
  have h: "\<forall>ev \<in> set [SetupAudioContext, OnPlay loud_frame, AnimationFrame loud_frame].
             \<forall>d \<in> set (event_frames ev). length d = frequencyBinCount"
    by (simp add: length_loud_frame)
  have r: "vrm_ready avatar_init"
    by (simp add: avatar_init_def)
  have l: "lipSync_ref (useFrame neutral_frame avatar_init) = lipSyncRef_init"
    by (simp add: useFrame_def Let_def split_def fst_lipSync_tick avatar_init_def
          neutral_frame_def lipSync_update_def lipSyncRef_init_def)
  show ?thesis
    using C9_ranges [OF h, of True 1 0 0 "(lipSyncRef_init, Map.empty)" avatar_init neutral_frame]
    by (simp add: analyze_def average_loud_frame normalized_def setupAudioContext_def
          tts_service_init_def primaryOpen_tick roundedOpen_tick lipSync_update_def
          mouthOpenValue_def lipSyncRef_init_def useFrame_mouth [OF r] l Let_def)
qed

section \<open>Emotion tag of a reply: properties\<close>

lemma bracket_not_word_char: "\<not> is_word_char CHR '']''"
  by (simp add: is_word_char_def)

lemma emotionMatch_tag:
  assumes "w \<noteq> []" and "\<forall>c \<in> set w. is_word_char c"
  shows "emotionMatch (CHR ''['' # w @ CHR '']'' # after) = Some (w, after)"
proof -
  have "takeWhile is_word_char (w @ CHR '']'' # after) = w"
    using assms(2) by (simp add: bracket_not_word_char)
  moreover have "dropWhile is_word_char (w @ CHR '']'' # after) = CHR '']'' # after"
    using assms(2) by (simp add: bracket_not_word_char)
  ultimately show ?thesis
    using assms(1) by (simp add: emotionMatch_def)
qed

lemma emotionMatch_SomeD:
  assumes "emotionMatch response = Some (w, after)"
  shows "response = CHR ''['' # w @ CHR '']'' # after \<and> w \<noteq> [] \<and> (\<forall>c \<in> set w. is_word_char c)"
proof (cases response)
  case Nil
  then show ?thesis using assms by (simp add: emotionMatch_def)
next
  case (Cons c rest)
  have c: "c = CHR ''[''"
    using assms Cons by (simp add: emotionMatch_def split: if_splits)
  obtain d after' where d: "dropWhile is_word_char rest = d # after'"
    using assms Cons c by (cases "dropWhile is_word_char rest") (simp_all add: emotionMatch_def)
  have m: "takeWhile is_word_char rest = w" "w \<noteq> []" "d = CHR '']''" "after' = after"
    using assms Cons c d by (simp_all add: emotionMatch_def Let_def split: if_splits)
  have "rest = takeWhile is_word_char rest @ dropWhile is_word_char rest"
    by simp
  then have "rest = w @ CHR '']'' # after"
    by (simp only: m(1) d m(3,4))
  moreover have "\<forall>c \<in> set w. is_word_char c"
    using m(1) by (auto dest: set_takeWhileD)
  ultimately show ?thesis
    using Cons c m(2) by simp
qed

text \<open>
  C4 (as stated, refuted). The parser returns the matched tag in lower case without
  comparing it with the thirteen emotions: for the reply \<open>[flabbergasted] hi\<close> the emotion
  is \<open>flabbergasted\<close>, not \<open>neutral\<close>.
\<close>

theorem C4_unknown_tag_counterexample:
  "emotion (parseEmotionFromResponse ''[flabbergasted] hi'') = ''flabbergasted''
 \<and> ''flabbergasted'' \<notin> set emotion_tags
 \<and> emotion (parseEmotionFromResponse ''[flabbergasted] hi'') \<noteq> ''neutral''"
  by (simp add: parseEmotionFromResponse_def emotionMatch_def is_word_char_def toLowerCase_def
        toLowerCase_char_def Let_def emotion_tags_def)

text \<open>
  C4 (amended). For every reply, the parser returns the emotion \<open>neutral\<close> whenever the
  reply does not begin with a bracketed tag \<open>[w]\<close> of one or more word characters; when
  it does, the parser returns \<open>w\<close> in lower case, whether or not that is one of the
  thirteen emotions. The parser is total: no reply makes it fail.
\<close>

theorem C4_parse_emotion:
  "(w \<noteq> [] \<and> (\<forall>c \<in> set w. is_word_char c) \<longrightarrow>
      emotion (parseEmotionFromResponse (CHR ''['' # w @ CHR '']'' # after)) = toLowerCase w)
 \<and> ((\<nexists>w after. response = CHR ''['' # w @ CHR '']'' # after
                  \<and> w \<noteq> [] \<and> (\<forall>c \<in> set w. is_word_char c)) \<longrightarrow>
      emotion (parseEmotionFromResponse response) = ''neutral'')"
proof (intro conjI impI)
  assume "w \<noteq> [] \<and> (\<forall>c \<in> set w. is_word_char c)"
  then show "emotion (parseEmotionFromResponse (CHR ''['' # w @ CHR '']'' # after)) = toLowerCase w"
    by (simp add: parseEmotionFromResponse_def emotionMatch_tag)
next
  assume no: "\<nexists>w after. response = CHR ''['' # w @ CHR '']'' # after
                  \<and> w \<noteq> [] \<and> (\<forall>c \<in> set w. is_word_char c)"
  have "emotionMatch response = None"
  proof (cases "emotionMatch response")
    case None
    then show ?thesis .
  next
    case (Some m)
    then show ?thesis
      using emotionMatch_SomeD [of response "fst m" "snd m"] no by auto
  qed
  then show "emotion (parseEmotionFromResponse response) = ''neutral''"
    by (simp add: parseEmotionFromResponse_def)
qed

lemma toLowerCase_Happy: "toLowerCase ''Happy'' = ''happy''"
  by code_simp

theorem C4_parse_emotion_witness:
  "emotion (parseEmotionFromResponse ''[Happy] Ahaha~'') = ''happy''
 \<and> emotion (parseEmotionFromResponse ''Hmph!'') = ''neutral''"
  using C4_parse_emotion [of "''Happy''" "'' Ahaha~''" "''Hmph!''"]
  by (simp add: is_word_char_def toLowerCase_Happy)

end
